theory Spec2Isabelle
  imports Complex_Main
begin

section \<open>Data model of \<open>falkon/ooc_ops/ooc_potrf.py\<close>\<close>

text \<open>
  The module is the policy layer around two external Cholesky kernels. Its arithmetic on
  memory sizes is Python float arithmetic. The block size of the out-of-core path (lines
  90 to 96) is a floor of a float, so it is modelled in IEEE double precision, rounding
  after every operation. The memory budget and the in-core test (lines 137 to 144 and
  188) are products and comparisons, modelled over the reals. Integers of the source that
  cannot be negative (shapes, strides, buffer addresses) are \<open>nat\<close>, the others are
  \<open>int\<close>.
\<close>

datatype dtype = Float32 | Float64

text \<open>
  Modelled from the spec: \<open>sizeof_dtype\<close> (\<open>falkon.utils.helpers\<close>) is not under src/.
  The matrix is a single- or double-precision buffer, so an element has 4 or 8 bytes.
\<close>

fun sizeof_dtype :: "dtype \<Rightarrow> nat" where
  "sizeof_dtype Float32 = 4"
| "sizeof_dtype Float64 = 8"

text \<open>\<open>A.device\<close>: the host, or the CUDA device with the given index.\<close>

datatype device = Cpu | Cuda int

text \<open>
  A tensor handle is a view of a buffer: transposing it gives a second handle on the same
  buffer (\<open>data_ptr\<close>), with shape and strides swapped.
\<close>

record tensor =
  data_ptr :: nat
  shape :: "nat \<times> nat"
  stride :: "nat \<times> nat"
  dtype :: dtype
  device :: device
  pinned :: bool

definition is_cuda :: "tensor \<Rightarrow> bool" where
  "is_cuda A = (device A \<noteq> Cpu)"

text \<open>\<open>A.T\<close> of a 2D tensor.\<close>

definition tensor_T :: "tensor \<Rightarrow> tensor" where
  "tensor_T A = A\<lparr>shape := (snd (shape A), fst (shape A)),
                  stride := (snd (stride A), fst (stride A))\<rparr>"

text \<open>
  Modelled from the spec: \<open>is_f_contig\<close> (\<open>falkon.utils.tensor_helpers\<close>) is not under
  src/. Column-major: consecutive addresses run along the first (row) index, so the row
  stride is 1 and the column stride is the number of rows.
\<close>

definition is_f_contig :: "tensor \<Rightarrow> bool" where
  "is_f_contig A = (stride A = (1, fst (shape A)))"

text \<open>
  \<open>DeviceInfo\<close>: the identifier, the raw free memory, and the attribute
  \<open>actual_free_mem\<close> that \<open>gpu_cholesky\<close> assigns on every call (whatever value the
  object carries on entry is the one left by an earlier call).
\<close>

record DeviceInfo =
  Id' :: int
  free_memory :: real
  actual_free_mem :: real

record options =
  chol_force_in_core :: bool
  chol_force_ooc :: bool
  max_gpu_mem :: real
  chol_par_blk_multiplier :: int
  debug :: bool

text \<open>
  The exceptions the module raises. \<open>RuntimeError\<close> and \<open>ValueError\<close> carry the literal
  message of the source. The two formatted messages and the two exceptions raised by
  Python built-ins have a constructor each:
  \<^item> \<open>DeviceNotRecognized d\<close>: the \<open>RuntimeError\<close> "Device of matrix A (d) is not recognized";
  \<^item> \<open>InsufficientMemory x\<close>: the \<open>RuntimeError\<close> "Cannot run parallel POTRF with minimum
    available memory of x MB";
  \<^item> \<open>EmptySequence\<close>: the \<open>ValueError\<close> of \<open>max\<close> or \<open>min\<close> on an empty list;
  \<^item> \<open>MathDomainError\<close>: the \<open>ValueError\<close> of \<open>math.sqrt\<close> on a negative number;
  \<^item> \<open>OverflowError\<close>: raised when an integer is too large for a float, and by
    \<open>math.floor\<close> on an infinite float;
  \<^item> \<open>Infeasible\<close>: the failure of the block planner of the spec.
\<close>

datatype error =
    RuntimeError string
  | ValueError string
  | DeviceNotRecognized device
  | InsufficientMemory real
  | EmptySequence
  | MathDomainError
  | OverflowError
  | Infeasible

section \<open>Memory budget\<close>

text \<open>
  Lines 186 to 188. \<open>get_device_info(opt)\<close> is an external collaborator: its result at
  this call, a dictionary from device index to \<open>DeviceInfo\<close>, is the argument \<open>inventory\<close>
  (an association list in the dictionary's order). Index \<open>-1\<close> is the host.
\<close>

definition set_actual_free_mem :: "options \<Rightarrow> DeviceInfo \<Rightarrow> DeviceInfo" where
  "set_actual_free_mem opt g =
     g\<lparr>actual_free_mem :=
         min ((free_memory g - 300 * 2 ^ 20) * 0.95) (max_gpu_mem opt * 0.95)\<rparr>"

definition gpu_info_of :: "options \<Rightarrow> (int \<times> DeviceInfo) list \<Rightarrow> DeviceInfo list" where
  "gpu_info_of opt inventory =
     map (set_actual_free_mem opt) (map snd (filter (\<lambda>(k, v). k \<ge> 0) inventory))"

section \<open>Strategy selection\<close>

text \<open>
  Python's \<open>max(xs, key=f)\<close> on a non-empty list: the first element whose key is
  maximal.
\<close>

definition max_by_key :: "('a \<Rightarrow> real) \<Rightarrow> 'a \<Rightarrow> 'a list \<Rightarrow> 'a" where
  "max_by_key f x xs = foldl (\<lambda>best g. if f g > f best then g else best) x xs"

text \<open>Lines 190 to 197: the device the in-core path would run on.\<close>

definition choose_device :: "tensor \<Rightarrow> DeviceInfo list \<Rightarrow> error + DeviceInfo" where
  "choose_device A gpu_info =
     (case device A of
        Cuda i \<Rightarrow>
          (case filter (\<lambda>d. Id' d = i) gpu_info of
             [] \<Rightarrow> Inl (DeviceNotRecognized (device A))
           | d # _ \<Rightarrow> Inr d)
      | Cpu \<Rightarrow>
          (case gpu_info of
             [] \<Rightarrow> Inl EmptySequence
           | g # gs \<Rightarrow> Inr (max_by_key actual_free_mem g gs)))"

definition needed_ram :: "tensor \<Rightarrow> real" where
  "needed_ram A =
     (if is_cuda A then 100 * 8
      else real (fst (shape A) * snd (shape A) * sizeof_dtype (dtype A)))"

definition can_do_ic :: "tensor \<Rightarrow> DeviceInfo \<Rightarrow> bool" where
  "can_do_ic A dev = (actual_free_mem dev * 0.85 \<ge> needed_ram A)"

section \<open>Effects\<close>

text \<open>
  The module's effects are calls of external collaborators on tensor handles. The state
  is the allocation pointer (every buffer that exists has an address below it) and the
  trace of the calls made so far, each with its arguments. The kernels, the copies and
  \<open>zero_triang\<close> are taken to return normally; an exception of theirs would end the call.
\<close>

record block_allocations =
  ba_start :: "nat list"
  ba_end :: "nat list"
  ba_size :: "nat list"
  ba_device_id :: "nat list"
  ba_id :: "nat list"

datatype event =
    CopySameStride tensor tensor
  | CreateFortran tensor
  | Copy tensor tensor
  | CusolverPotrf tensor bool nat nat
  | StreamSynchronize int
  | ParallelPotrf "nat list" block_allocations tensor
  | ZeroTriang tensor bool
  | LogInfo string

record state =
  next_ptr :: nat
  trace :: "event list"

definition emit :: "event \<Rightarrow> state \<Rightarrow> state" where
  "emit e s = s\<lparr>trace := trace s @ [e]\<rparr>"

text \<open>The buffers a call writes to.\<close>

fun writes :: "event \<Rightarrow> nat set" where
  "writes (CopySameStride src dst) = {data_ptr dst}"
| "writes (CreateFortran t) = {}"
| "writes (Copy origin dest) = {data_ptr dest}"
| "writes (CusolverPotrf A upper n lda) = {data_ptr A}"
| "writes (StreamSynchronize g) = {}"
| "writes (ParallelPotrf devices ba A) = {data_ptr A}"
| "writes (ZeroTriang A upper) = {data_ptr A}"
| "writes (LogInfo m) = {}"

fun is_kernel :: "event \<Rightarrow> bool" where
  "is_kernel (CusolverPotrf A upper n lda) = True"
| "is_kernel (ParallelPotrf devices ba A) = True"
| "is_kernel e = False"

text \<open>
  Modelled from the spec: \<open>copy_same_stride\<close> (\<open>falkon.utils.tensor_helpers\<close>) is not
  under src/. It returns a copy in a new buffer, with the strides of the original, pinned
  when \<open>pin_memory\<close> is set.
\<close>

definition copy_same_stride :: "tensor \<Rightarrow> bool \<Rightarrow> state \<Rightarrow> tensor \<times> state" where
  "copy_same_stride A pin_memory s =
     (let A' = A\<lparr>data_ptr := next_ptr s, pinned := pin_memory\<rparr>
      in (A', emit (CopySameStride A A') (s\<lparr>next_ptr := Suc (next_ptr s)\<rparr>)))"

text \<open>
  Modelled from the spec: \<open>create_fortran\<close> (\<open>falkon.utils.tensor_helpers\<close>) is not
  under src/. It allocates a new column-major buffer of the given shape on the device.
\<close>

definition create_fortran :: "nat \<times> nat \<Rightarrow> dtype \<Rightarrow> device \<Rightarrow> state \<Rightarrow> tensor \<times> state" where
  "create_fortran sh dt dev s =
     (let t = \<lparr>data_ptr = next_ptr s, shape = sh, stride = (1, fst sh), dtype = dt,
               device = dev, pinned = False\<rparr>
      in (t, emit (CreateFortran t) (s\<lparr>next_ptr := Suc (next_ptr s)\<rparr>)))"

section \<open>The in-core path\<close>

text \<open>
  \<open>_ic_cholesky\<close>, lines 21 to 77. The workspace and info buffers of cuSOLVER are
  scratch allocations on the device and are left out.
\<close>

definition ic_cholesky :: "tensor \<Rightarrow> bool \<Rightarrow> int \<Rightarrow> state \<Rightarrow> (error + tensor) \<times> state" where
  "ic_cholesky A upper dev s =
     (if \<not> is_f_contig A then (Inl (RuntimeError ''Cholesky input must be F-contiguous''), s)
      else
        let n = fst (shape A);
            (Agpu, s1) =
              (if is_cuda A then (A, s)
               else let (G, s') = create_fortran (n, n) (dtype A) (Cuda dev) s
                    in (G, emit (Copy A G) s'));
            s2 = emit (CusolverPotrf Agpu upper n n) s1;
            s3 = (if \<not> is_cuda A then emit (Copy Agpu A) s2 else s2);
            s4 = emit (StreamSynchronize dev) s3
        in (Inr A, s4))"

section \<open>The out-of-core path\<close>

subsection \<open>Double precision\<close>

text \<open>
  Python floats are IEEE 754 doubles: every operation returns the double nearest to the
  exact result, ties going to the even significand. A double is a multiple of the unit
  in the last place of its binade, \<open>2 ^ (e - 52)\<close> for \<open>2 ^ e \<le> \<bar>x\<bar> < 2 ^ (e + 1)\<close>, the
  binade of the subnormal numbers being that of \<open>2 ^ - 1022\<close>. A result of magnitude
  \<open>2 ^ 1024\<close> after rounding is infinite.
\<close>

definition round_half_even :: "real \<Rightarrow> int" where
  "round_half_even y =
     (let f = \<lfloor>y\<rfloor>; r = y - of_int f
      in if r < 1 / 2 then f else if 1 / 2 < r then f + 1 else if even f then f else f + 1)"

definition ulp :: "real \<Rightarrow> real" where
  "ulp x = 2 powr of_int (max \<lfloor>log 2 \<bar>x\<bar>\<rfloor> (- 1022) - 52)"

definition round_double :: "real \<Rightarrow> real" where
  "round_double x = (if x = 0 then 0 else ulp x * of_int (round_half_even (x / ulp x)))"

definition overflows :: "real \<Rightarrow> bool" where
  "overflows x = (2 ^ 1024 \<le> \<bar>round_double x\<bar>)"

subsection \<open>The maximum block size\<close>

text \<open>
  Line 91, \<open>(math.sqrt(4 * N**2 + 4 * avail_ram) - 2 * N) / 2\<close>, as Python evaluates it
  when nothing overflows: \<open>4 * N**2\<close> and \<open>2 * N\<close> are exact integers, converted to
  doubles where they meet a float; the product, the sum, the square root (which
  \<open>math.sqrt\<close> rounds correctly), the difference and the quotient are rounded.
\<close>

definition block_quotient :: "nat \<Rightarrow> real \<Rightarrow> real" where
  "block_quotient N avail_ram =
     (let x = round_double (round_double (real (4 * N ^ 2)) + round_double (4 * avail_ram));
          s = round_double (sqrt x);
          d = round_double (s - round_double (real (2 * N)))
      in round_double (d / 2))"

text \<open>
  Lines 91 to 96: the block size, or the exception. The conversion of \<open>4 * N**2\<close> raises
  when the integer is too large. An infinite sum makes \<open>math.sqrt\<close> raise when it is
  negative and \<open>math.floor\<close> raise when it is positive; \<open>math.sqrt\<close> raises on a negative
  sum. The number in the message of line 95 is \<open>avail_ram * dts / 2**20\<close>.
\<close>

definition max_block_size :: "nat \<Rightarrow> real \<Rightarrow> real \<Rightarrow> error + int" where
  "max_block_size N avail_ram dts =
     (if overflows (real (4 * N ^ 2)) then Inl OverflowError
      else if overflows (4 * avail_ram) then
        (if avail_ram < 0 then Inl MathDomainError else Inl OverflowError)
      else
        let x = round_double (real (4 * N ^ 2)) + round_double (4 * avail_ram)
        in if overflows x then Inl OverflowError
           else if round_double x < 0 then Inl MathDomainError
           else
             let b = \<lfloor>block_quotient N avail_ram\<rfloor>
             in if b < 1
                then Inl (InsufficientMemory
                            (round_double (round_double (avail_ram * dts) / 2 ^ 20)))
                else Inr b)"

text \<open>
  The quotient in the words of the spec, in exact arithmetic: the positive root of
  \<open>b\<^sup>2 + 2 n b - A = 0\<close>.
\<close>

definition exact_quotient :: "nat \<Rightarrow> real \<Rightarrow> real" where
  "exact_quotient n A = (sqrt (4 * real n ^ 2 + 4 * A) - 2 * real n) / 2"

text \<open>
  Lines 99 to 107: the loop over \<open>enumerate(block_sizes)\<close>, with the counter \<open>i\<close> and the
  running offset \<open>cur_n\<close>.
\<close>

fun allocate_blocks ::
  "nat \<Rightarrow> nat \<Rightarrow> nat \<Rightarrow> nat list \<Rightarrow> block_allocations \<Rightarrow> block_allocations" where
  "allocate_blocks num_gpus i cur_n [] ba = ba"
| "allocate_blocks num_gpus i cur_n (bs # rest) ba =
     allocate_blocks num_gpus (Suc i) (cur_n + bs) rest
       (ba\<lparr>ba_start := ba_start ba @ [cur_n],
           ba_end := ba_end ba @ [cur_n + bs],
           ba_size := ba_size ba @ [bs],
           ba_device_id := ba_device_id ba @ [i mod num_gpus],
           ba_id := ba_id ba @ [i]\<rparr>)"

definition empty_allocations :: block_allocations where
  "empty_allocations =
     \<lparr>ba_start = [], ba_end = [], ba_size = [], ba_device_id = [], ba_id = []\<rparr>"

text \<open>Python's \<open>min\<close> of a non-empty list of floats.\<close>

definition min_list_real :: "real \<Rightarrow> real list \<Rightarrow> real" where
  "min_list_real x xs = foldl min x xs"

text \<open>
  \<open>_parallel_potrf_runner\<close>, lines 80 to 120. \<open>calc_block_sizes\<close> (\<open>ooc_utils\<close>) is not
  under src/: it is the parameter \<open>calc_block_sizes\<close>, a function of the maximum block
  size, the number of devices, the dimension and the multiplier that returns the block
  sizes or raises (the planner that the spec describes is \<open>calc_block_sizes_spec\<close> below).
  The quotient of line 90 is a float division. The list of devices is not empty where
  \<open>i mod num_gpus\<close> is computed, since \<open>min\<close> has raised otherwise.
\<close>

type_synonym planner = "int \<Rightarrow> nat \<Rightarrow> nat \<Rightarrow> int \<Rightarrow> error + nat list"

definition parallel_potrf_runner ::
  "planner \<Rightarrow> tensor \<Rightarrow> options \<Rightarrow> DeviceInfo list \<Rightarrow> state \<Rightarrow> (error + tensor) \<times> state" where
  "parallel_potrf_runner calc_block_sizes A opt gpu_info s =
     (let num_gpus = length gpu_info;
          N = fst (shape A);
          dts = real (sizeof_dtype (dtype A))
      in case map actual_free_mem gpu_info of
           [] \<Rightarrow> (Inl EmptySequence, s)
         | m # ms \<Rightarrow>
             let avail_ram = round_double (min_list_real m ms / dts)
             in case max_block_size N avail_ram dts of
                  Inl e \<Rightarrow> (Inl e, s)
                | Inr b \<Rightarrow>
                    (case calc_block_sizes b num_gpus N (chol_par_blk_multiplier opt) of
                       Inl e \<Rightarrow> (Inl e, s)
                     | Inr block_sizes \<Rightarrow>
                         let ba = allocate_blocks num_gpus 0 0 block_sizes empty_allocations;
                             s1 = foldl (\<lambda>st g. emit (StreamSynchronize (int g)) st) s [0..<num_gpus];
                             s2 = emit (ParallelPotrf [0..<num_gpus] ba A) s1
                         in (Inr A, s2)))"

text \<open>
  Modelled from the spec: \<open>calc_block_sizes\<close> (\<open>falkon/ooc_ops/ooc_utils.py\<close>) is not
  under src/. The spec derives a final block size from the maximum block size and the
  multiplier, and partitions \<open>[0, n)\<close> into contiguous blocks of that size, the last of
  which may be shorter: \<open>n mod block_size\<close> when that is not zero. It does not say how
  the final size is derived, so the derivation is the parameter \<open>final_block_size\<close>;
  nor what happens when the final size is below 1, where the model fails.
\<close>

definition calc_block_sizes_spec :: "(int \<Rightarrow> int \<Rightarrow> nat) \<Rightarrow> planner" where
  "calc_block_sizes_spec final_block_size mbs num_devices num_rows multiplier =
     (let bs = final_block_size mbs multiplier
      in if bs < 1 then Inl Infeasible
         else Inr (replicate (num_rows div bs) bs @
                   (if num_rows mod bs = 0 then [] else [num_rows mod bs])))"

section \<open>\<open>gpu_cholesky\<close>\<close>

definition log_debug :: "options \<Rightarrow> string \<Rightarrow> state \<Rightarrow> state" where
  "log_debug opt m s = (if debug opt then emit (LogInfo m) s else s)"

text \<open>Lines 224 to 231.\<close>

definition dispatch ::
  "planner \<Rightarrow> bool \<Rightarrow> tensor \<Rightarrow> bool \<Rightarrow> DeviceInfo \<Rightarrow> options \<Rightarrow> DeviceInfo list \<Rightarrow> state
     \<Rightarrow> (error + tensor) \<times> state" where
  "dispatch calc_block_sizes ic A upper dev opt gpu_info s =
     (if ic then ic_cholesky A upper (Id' dev) (log_debug opt ''Using in-core POTRF'' s)
      else parallel_potrf_runner calc_block_sizes A opt gpu_info
             (log_debug opt ''Using parallel POTRF'' s))"

text \<open>Lines 233 to 239. \<open>zero_triang\<close> (\<open>la_helpers\<close>) is an external call on the handle.\<close>

definition finalize :: "tensor \<Rightarrow> bool \<Rightarrow> bool \<Rightarrow> bool \<Rightarrow> state \<Rightarrow> tensor \<times> state" where
  "finalize A upper clean transposed s =
     (let s1 = (if clean then emit (ZeroTriang A (\<not> upper)) s else s)
      in (if transposed then tensor_T A else A, s1))"

definition msg_force_in_core :: string where
  "msg_force_in_core = ''Cannot run in-core POTRF but `chol_force_in_core` was specified.''"

definition msg_only_lower :: string where
  "msg_only_lower =
     ''GPU POTRF is only implemented on the '' @
     ''lower triangle for Fortran-ordered matrices (or on the upper '' @
     ''triangle for C-ordered matrices)''"

definition msg_ooc_cuda :: string where
  "msg_ooc_cuda = ''Cannot run out-of-core POTRF on CUDA matrix 'A'.''"

definition msg_force_ooc_note :: string where
  "msg_force_ooc_note =
     '' Set the `chol_force_ooc` option to `False` in to allow in-core POTRF.''"

text \<open>
  Lines 177 to 198: the working tensor (the copy when \<open>overwrite\<close> is false), the devices
  with their usable memory, the chosen device and the flag \<open>ic\<close>.
\<close>

definition working_tensor :: "tensor \<Rightarrow> bool \<Rightarrow> state \<Rightarrow> tensor \<times> state" where
  "working_tensor A overwrite s = (if \<not> overwrite then copy_same_stride A True s else (A, s))"

definition in_core :: "tensor \<Rightarrow> DeviceInfo \<Rightarrow> options \<Rightarrow> bool" where
  "in_core A dev opt = (can_do_ic A dev \<and> \<not> chol_force_ooc opt)"

text \<open>\<open>gpu_cholesky\<close>, lines 147 to 240.\<close>

definition gpu_cholesky ::
  "planner \<Rightarrow> (int \<times> DeviceInfo) list \<Rightarrow> tensor \<Rightarrow> bool \<Rightarrow> bool \<Rightarrow> bool \<Rightarrow> options \<Rightarrow> state
     \<Rightarrow> (error + tensor) \<times> state" where
  "gpu_cholesky calc_block_sizes inventory A0 upper0 clean overwrite opt s0 =
     (let (A, s) = working_tensor A0 overwrite s0;
          gpu_info = gpu_info_of opt inventory
      in case choose_device A gpu_info of
           Inl e \<Rightarrow> (Inl e, s)
         | Inr dev \<Rightarrow>
             let ic = in_core A dev opt
             in if chol_force_in_core opt \<and> \<not> ic then (Inl (RuntimeError msg_force_in_core), s)
                else
                  let f_order = is_f_contig A;
                      A1 = (if \<not> f_order then tensor_T A else A);
                      upper = (if \<not> f_order then \<not> upper0 else upper0);
                      transposed = (\<not> f_order)
                  in if upper \<and> \<not> ic then (Inl (ValueError msg_only_lower), s)
                     else if \<not> ic \<and> is_cuda A1 then
                       (Inl (ValueError
                          (if chol_force_ooc opt then msg_ooc_cuda @ msg_force_ooc_note
                           else msg_ooc_cuda)), s)
                     else
                       (case dispatch calc_block_sizes ic A1 upper dev opt gpu_info s of
                          (Inl e, s') \<Rightarrow> (Inl e, s')
                        | (Inr R, s') \<Rightarrow>
                            (let (Rf, s'') = finalize A1 upper clean transposed s'
                             in (Inr Rf, s''))))"

section \<open>Observing a call\<close>

text \<open>The calls a run has added to the trace.\<close>

definition new_events :: "state \<Rightarrow> state \<Rightarrow> event list" where
  "new_events s s' = drop (length (trace s)) (trace s')"

text \<open>Concrete inputs used to instantiate the theorems below.\<close>

definition opt0 :: options where
  "opt0 = \<lparr>chol_force_in_core = False, chol_force_ooc = False, max_gpu_mem = 10 ^ 12,
           chol_par_blk_multiplier = 2, debug = False\<rparr>"

definition gpu0 :: DeviceInfo where
  "gpu0 = \<lparr>Id' = 0, free_memory = 314574400, actual_free_mem = 0\<rparr>"

definition host0 :: DeviceInfo where
  "host0 = \<lparr>Id' = -1, free_memory = 2 ^ 34, actual_free_mem = 0\<rparr>"

definition inventory0 :: "(int \<times> DeviceInfo) list" where
  "inventory0 = [(-1, host0), (0, gpu0)]"

text \<open>The two kernels, told apart.\<close>

fun is_ic_kernel :: "event \<Rightarrow> bool" where
  "is_ic_kernel (CusolverPotrf A upper n lda) = True"
| "is_ic_kernel e = False"

fun is_ooc_kernel :: "event \<Rightarrow> bool" where
  "is_ooc_kernel (ParallelPotrf devices ba A) = True"
| "is_ooc_kernel e = False"

text \<open>Whether a message contains a given piece of text.\<close>

fun contains :: "string \<Rightarrow> string \<Rightarrow> bool" where
  "contains [] n = (n = [])"
| "contains (c # cs) n = (take (length n) (c # cs) = n \<or> contains cs n)"

text \<open>
  A planner for the examples: blocks of the maximum block size, the last one shorter. It
  stands in for \<open>calc_block_sizes\<close> where a theorem is instantiated; the theorems
  themselves hold for every planner.
\<close>

definition planner0 :: planner where
  "planner0 b d n m =
     Inr (replicate (n div nat b) (nat b) @ (if n mod nat b = 0 then [] else [n mod nat b]))"

definition s_init :: state where
  "s_init = \<lparr>next_ptr = 1, trace = []\<rparr>"

text \<open>
  A 4 x 4 column-major matrix on device 0, and three matrices on the host: 10 x 10
  column-major, 10 x 10 row-major and 100 x 100 column-major, all in double precision.
\<close>

definition cuda_mat :: tensor where
  "cuda_mat = \<lparr>data_ptr = 0, shape = (4, 4), stride = (1, 4), dtype = Float64,
               device = Cuda 0, pinned = False\<rparr>"

definition host_mat :: tensor where
  "host_mat = \<lparr>data_ptr = 0, shape = (10, 10), stride = (1, 10), dtype = Float64,
               device = Cpu, pinned = False\<rparr>"

definition rowmajor_mat :: tensor where
  "rowmajor_mat = \<lparr>data_ptr = 0, shape = (10, 10), stride = (10, 1), dtype = Float64,
               device = Cpu, pinned = False\<rparr>"

definition big_mat :: tensor where
  "big_mat = \<lparr>data_ptr = 0, shape = (100, 100), stride = (1, 100), dtype = Float64,
               device = Cpu, pinned = False\<rparr>"

text \<open>
  Device 0 of \<open>inventory0\<close> with its usable memory: \<open>(314574400 - 300 MiB) * 0.95\<close> is
  1520 bytes, which is 190 elements in double precision.
\<close>

definition usable0 :: DeviceInfo where
  "usable0 = \<lparr>Id' = 0, free_memory = 314574400, actual_free_mem = 1520\<rparr>"

text \<open>
  A second inventory, with a device whose free memory is below the reserved margin and
  which carries a usable memory left by an earlier call.
\<close>

definition gpu1 :: DeviceInfo where
  "gpu1 = \<lparr>Id' = 1, free_memory = 100, actual_free_mem = 1520\<rparr>"

definition inventory1 :: "(int \<times> DeviceInfo) list" where
  "inventory1 = [(-1, host0), (0, gpu0), (1, gpu1)]"

text \<open>The derivation that takes the maximum block size as the final block size.\<close>

definition same_size :: "int \<Rightarrow> int \<Rightarrow> nat" where
  "same_size mbs multiplier = nat mbs"

text \<open>
  An available element count just below 189, itself a double: with it the sum under the
  square root of line 91 lies halfway between two doubles.
\<close>

definition tie_ram :: real where
  "tie_ram = 189 - 1 / 2 ^ 45"

text \<open>The allocation of a dimension of 10 in blocks of 7 and 3 on one device.\<close>

definition blocks0 :: block_allocations where
  "blocks0 = \<lparr>ba_start = [0, 7], ba_end = [7, 10], ba_size = [7, 3],
              ba_device_id = [0, 0], ba_id = [0, 1]\<rparr>"

text \<open>
  The run of \<open>gpu_cholesky\<close> on \<open>rowmajor_mat\<close> with \<open>clean\<close> set and \<open>overwrite\<close>
  unset: the copy, the staging buffer on the device and the final state.
\<close>

definition copy0 :: tensor where
  "copy0 = \<lparr>data_ptr = 1, shape = (10, 10), stride = (10, 1), dtype = Float64,
            device = Cpu, pinned = True\<rparr>"

definition staged0 :: tensor where
  "staged0 = \<lparr>data_ptr = 2, shape = (10, 10), stride = (1, 10), dtype = Float64,
              device = Cuda 0, pinned = False\<rparr>"

definition final0 :: state where
  "final0 = \<lparr>next_ptr = 3,
             trace = [CopySameStride rowmajor_mat copy0,
                      CreateFortran staged0,
                      Copy (tensor_T copy0) staged0,
                      CusolverPotrf staged0 True 10 10,
                      Copy staged0 (tensor_T copy0),
                      StreamSynchronize 0,
                      ZeroTriang (tensor_T copy0) False]\<rparr>"

section \<open>Auxiliary facts\<close>

subsection \<open>The working tensor\<close>

lemma working_tensor_fields:
  "working_tensor A0 overwrite s0 = (A, s) \<Longrightarrow>
     shape A = shape A0 \<and> stride A = stride A0 \<and> dtype A = dtype A0 \<and> device A = device A0"
  by (auto simp: working_tensor_def copy_same_stride_def Let_def split: if_splits)

lemma working_tensor_trace:
  "working_tensor A0 overwrite s0 = (A, s) \<Longrightarrow>
     trace s = trace s0 @ (if overwrite then [] else [CopySameStride A0 A])"
  by (auto simp: working_tensor_def copy_same_stride_def Let_def emit_def split: if_splits)

lemma working_tensor_no_kernel:
  "working_tensor A0 overwrite s0 = (A, s) \<Longrightarrow> \<forall>e \<in> set (new_events s0 s). \<not> is_kernel e"
  by (auto simp: new_events_def dest!: working_tensor_trace split: if_splits)

lemma choose_device_cong:
  "device A = device A0 \<Longrightarrow> choose_device A gi = choose_device A0 gi"
  by (simp add: choose_device_def split: device.splits list.splits)

lemma in_core_cong:
  "shape A = shape A0 \<Longrightarrow> dtype A = dtype A0 \<Longrightarrow> device A = device A0 \<Longrightarrow>
     in_core A dev opt = in_core A0 dev opt"
  by (simp add: in_core_def can_do_ic_def needed_ram_def is_cuda_def)

lemma is_f_contig_cong:
  "shape A = shape A0 \<Longrightarrow> stride A = stride A0 \<Longrightarrow> is_f_contig A = is_f_contig A0"
  by (simp add: is_f_contig_def)

lemma is_cuda_cong: "device A = device A0 \<Longrightarrow> is_cuda A = is_cuda A0"
  by (simp add: is_cuda_def)

lemma is_cuda_T [simp]: "is_cuda (tensor_T A) = is_cuda A"
  by (simp add: is_cuda_def tensor_T_def)

subsection \<open>Traces\<close>

lemma trace_emit [simp]: "trace (emit e s) = trace s @ [e]"
  by (simp add: emit_def)

lemma next_ptr_emit [simp]: "next_ptr (emit e s) = next_ptr s"
  by (simp add: emit_def)

lemma trace_log_debug:
  "trace (log_debug opt m s) = trace s @ (if debug opt then [LogInfo m] else [])"
  by (simp add: log_debug_def)

lemma next_ptr_log_debug [simp]: "next_ptr (log_debug opt m s) = next_ptr s"
  by (simp add: log_debug_def)

lemma trace_sync_loop:
  "trace (foldl (\<lambda>st g. emit (StreamSynchronize (int g)) st) s gs) =
     trace s @ map (\<lambda>g. StreamSynchronize (int g)) gs"
  by (induction gs arbitrary: s) simp_all

lemma next_ptr_sync_loop [simp]:
  "next_ptr (foldl (\<lambda>st g. emit (StreamSynchronize (int g)) st) s gs) = next_ptr s"
  by (induction gs arbitrary: s) simp_all

text \<open>What the in-core path and the out-of-core path add to the trace.\<close>

lemma ic_cholesky_error:
  "ic_cholesky A upper d s = (Inl e, s') \<Longrightarrow> s' = s \<and> \<not> is_f_contig A"
  by (auto simp: ic_cholesky_def Let_def split: if_splits prod.splits)

lemma ic_cholesky_ok:
  assumes "ic_cholesky A upper d s = (Inr R, s')"
  shows "R = A \<and> is_f_contig A \<and> next_ptr s \<le> next_ptr s' \<and>
         (\<exists>G. (G = A \<or> data_ptr G = next_ptr s) \<and>
            trace s' = trace s @
              (if is_cuda A then [] else [CreateFortran G, Copy A G]) @
              [CusolverPotrf G upper (fst (shape A)) (fst (shape A))] @
              (if is_cuda A then [] else [Copy G A]) @ [StreamSynchronize d])"
  using assms
  by (auto simp: ic_cholesky_def create_fortran_def Let_def split: if_splits prod.splits)

lemma runner_error:
  "parallel_potrf_runner cbs A opt gi s = (Inl e, s') \<Longrightarrow> s' = s"
  by (auto simp: parallel_potrf_runner_def Let_def split: list.splits sum.splits)

lemma runner_ok:
  assumes "parallel_potrf_runner cbs A opt gi s = (Inr R, s')"
  shows "R = A \<and> next_ptr s' = next_ptr s \<and>
         (\<exists>ba. trace s' = trace s @ map (\<lambda>g. StreamSynchronize (int g)) [0..<length gi] @
                  [ParallelPotrf [0..<length gi] ba A])"
  using assms
  by (auto simp: parallel_potrf_runner_def Let_def trace_sync_loop split: list.splits sum.splits)

lemma dispatch_error:
  assumes "dispatch cbs ic A1 u dev opt gi s = (Inl e, s')"
  shows "next_ptr s' = next_ptr s \<and>
         (\<exists>ev. trace s' = trace s @ ev \<and> (\<forall>x \<in> set ev. writes x = {} \<and> \<not> is_kernel x))"
proof (cases ic)
  case True
  with assms have "s' = log_debug opt ''Using in-core POTRF'' s"
    by (auto simp: dispatch_def dest: ic_cholesky_error)
  then show ?thesis by (simp add: trace_log_debug)
next
  case False
  with assms have "s' = log_debug opt ''Using parallel POTRF'' s"
    by (auto simp: dispatch_def dest: runner_error)
  then show ?thesis by (simp add: trace_log_debug)
qed

lemma dispatch_ok:
  assumes "dispatch cbs ic A1 u dev opt gi s = (Inr R, s')"
  shows "R = A1 \<and> next_ptr s \<le> next_ptr s' \<and>
         (\<exists>ev. trace s' = trace s @ ev \<and>
            (\<forall>x \<in> set ev. \<forall>p \<in> writes x. p = data_ptr A1 \<or> next_ptr s \<le> p) \<and>
            (\<exists>x \<in> set ev. is_ic_kernel x) = ic \<and>
            (\<exists>x \<in> set ev. is_ooc_kernel x) = (\<not> ic))"
proof (cases ic)
  case True
  with assms have r: "ic_cholesky A1 u (Id' dev) (log_debug opt ''Using in-core POTRF'' s) = (Inr R, s')"
    by (simp add: dispatch_def)
  from ic_cholesky_ok [OF r] True show ?thesis
    by (auto simp: trace_log_debug)
next
  case False
  with assms have r: "parallel_potrf_runner cbs A1 opt gi (log_debug opt ''Using parallel POTRF'' s) = (Inr R, s')"
    by (simp add: dispatch_def)
  from runner_ok [OF r] False show ?thesis
    by (auto simp: trace_log_debug)
qed

subsection \<open>The decision tree of \<open>gpu_cholesky\<close>\<close>

text \<open>
  The working copy has the shape, strides, element type and residency of the caller's
  matrix, so every test of \<open>gpu_cholesky\<close> can be read on the caller's matrix.
\<close>

lemma gpu_cholesky_cases:
  assumes wt: "working_tensor A0 overwrite s0 = (A, s)"
      and dev: "choose_device A0 (gpu_info_of opt inventory) = Inr dev"
  shows "gpu_cholesky cbs inventory A0 upper0 clean overwrite opt s0 =
     (let ic = in_core A0 dev opt;
          f_order = is_f_contig A0;
          A1 = (if \<not> f_order then tensor_T A else A);
          upper = (if \<not> f_order then \<not> upper0 else upper0)
      in if chol_force_in_core opt \<and> \<not> ic then (Inl (RuntimeError msg_force_in_core), s)
         else if upper \<and> \<not> ic then (Inl (ValueError msg_only_lower), s)
         else if \<not> ic \<and> is_cuda A0 then
           (Inl (ValueError (if chol_force_ooc opt then msg_ooc_cuda @ msg_force_ooc_note
                             else msg_ooc_cuda)), s)
         else (case dispatch cbs ic A1 upper dev opt (gpu_info_of opt inventory) s of
                 (Inl e, s') \<Rightarrow> (Inl e, s')
               | (Inr R, s') \<Rightarrow>
                   (let (Rf, s'') = finalize A1 upper clean (\<not> f_order) s' in (Inr Rf, s''))))"
proof -
  from working_tensor_fields [OF wt]
  have f: "shape A = shape A0" "stride A = stride A0" "dtype A = dtype A0" "device A = device A0"
    by simp_all
  have cd: "choose_device A (gpu_info_of opt inventory) = Inr dev"
    using choose_device_cong [OF f(4)] dev by simp
  have ic: "in_core A dev opt = in_core A0 dev opt"
    by (rule in_core_cong [OF f(1) f(3) f(4)])
  have fc: "is_f_contig A = is_f_contig A0"
    by (rule is_f_contig_cong [OF f(1) f(2)])
  have cu: "is_cuda A = is_cuda A0"
    by (rule is_cuda_cong [OF f(4)])
  show ?thesis
    unfolding gpu_cholesky_def
    apply (simp only: wt split_conv Let_def cd sum.case ic fc)
    apply (cases "is_f_contig A0")
     apply (simp_all only: if_True if_False not_True_eq_False not_False_eq_True is_cuda_T cu
        cong: if_cong)
    done
qed

lemma gpu_cholesky_no_device:
  assumes wt: "working_tensor A0 overwrite s0 = (A, s)"
      and dev: "choose_device A0 (gpu_info_of opt inventory) = Inl e"
  shows "gpu_cholesky cbs inventory A0 upper0 clean overwrite opt s0 = (Inl e, s)"
proof -
  from working_tensor_fields [OF wt] have d: "device A = device A0" by simp
  have "choose_device A (gpu_info_of opt inventory) = Inl e"
    using choose_device_cong [OF d] dev by simp
  then show ?thesis unfolding gpu_cholesky_def by (simp only: wt split_conv Let_def sum.case)
qed

lemma gpu_cholesky_run:
  assumes wt: "working_tensor A0 overwrite s0 = (A, s)"
      and dev: "choose_device A0 (gpu_info_of opt inventory) = Inr dev"
      and A1: "A1 = (if is_f_contig A0 then A else tensor_T A)"
      and u: "u = (if is_f_contig A0 then upper0 else \<not> upper0)"
      and g1: "\<not> (chol_force_in_core opt \<and> \<not> in_core A0 dev opt)"
      and g2: "\<not> (u \<and> \<not> in_core A0 dev opt)"
      and g3: "\<not> (\<not> in_core A0 dev opt \<and> is_cuda A0)"
      and d: "dispatch cbs (in_core A0 dev opt) A1 u dev opt (gpu_info_of opt inventory) s = (r, s2)"
  shows "gpu_cholesky cbs inventory A0 upper0 clean overwrite opt s0 =
           (case r of
              Inl e \<Rightarrow> (Inl e, s2)
            | Inr R \<Rightarrow> (Inr (if is_f_contig A0 then A1 else tensor_T A1),
                        if clean then emit (ZeroTriang A1 (\<not> u)) s2 else s2))"
proof -
  have eq: "gpu_cholesky cbs inventory A0 upper0 clean overwrite opt s0 =
      (case dispatch cbs (in_core A0 dev opt) A1 u dev opt (gpu_info_of opt inventory) s of
         (Inl e, s') \<Rightarrow> (Inl e, s')
       | (Inr R, s') \<Rightarrow>
           (let (Rf, s'') = finalize A1 u clean (\<not> is_f_contig A0) s' in (Inr Rf, s'')))"
    using g1 g2 g3
    by (cases "is_f_contig A0"; cases "in_core A0 dev opt")
       (simp_all add: gpu_cholesky_cases [OF wt dev] Let_def A1 u split: prod.splits sum.splits)
  show ?thesis
    unfolding eq d by (cases r) (simp_all add: finalize_def Let_def)
qed

lemma gpu_cholesky_guard:
  assumes wt: "working_tensor A0 overwrite s0 = (A, s)"
      and dev: "choose_device A0 (gpu_info_of opt inventory) = Inr dev"
      and g: "(chol_force_in_core opt \<and> \<not> in_core A0 dev opt) \<or>
              ((if is_f_contig A0 then upper0 else \<not> upper0) \<and> \<not> in_core A0 dev opt) \<or>
              (\<not> in_core A0 dev opt \<and> is_cuda A0)"
  shows "\<exists>e. gpu_cholesky cbs inventory A0 upper0 clean overwrite opt s0 = (Inl e, s)"
  using g by (cases "is_f_contig A0") (auto simp: gpu_cholesky_cases [OF wt dev] Let_def)

lemma gpu_cholesky_result:
  assumes wt: "working_tensor A0 overwrite s0 = (A, s)"
      and run: "gpu_cholesky cbs inventory A0 upper0 clean overwrite opt s0 = (r, s')"
  shows "(\<exists>e. r = Inl e \<and> s' = s) \<or>
         (\<exists>dev r2 s2.
            choose_device A0 (gpu_info_of opt inventory) = Inr dev \<and>
            dispatch cbs (in_core A0 dev opt) (if is_f_contig A0 then A else tensor_T A)
              (if is_f_contig A0 then upper0 else \<not> upper0) dev opt (gpu_info_of opt inventory) s
              = (r2, s2) \<and>
            (case r2 of
               Inl e \<Rightarrow> r = Inl e \<and> s' = s2
             | Inr R \<Rightarrow>
                 r = Inr (if is_f_contig A0 then A else tensor_T (tensor_T A)) \<and>
                 s' = (if clean
                       then emit (ZeroTriang (if is_f_contig A0 then A else tensor_T A)
                              (\<not> (if is_f_contig A0 then upper0 else \<not> upper0))) s2
                       else s2)))"
proof (cases "choose_device A0 (gpu_info_of opt inventory)")
  case (Inl e)
  from gpu_cholesky_no_device [OF wt Inl, where cbs=cbs and ?upper0.0=upper0 and clean=clean] run
  have "r = Inl e \<and> s' = s" by simp
  then show ?thesis by blast
next
  case (Inr dev)
  let ?A1 = "if is_f_contig A0 then A else tensor_T A"
  let ?u = "if is_f_contig A0 then upper0 else \<not> upper0"
  show ?thesis
  proof (cases "(chol_force_in_core opt \<and> \<not> in_core A0 dev opt) \<or>
              (?u \<and> \<not> in_core A0 dev opt) \<or> (\<not> in_core A0 dev opt \<and> is_cuda A0)")
    case True
    from gpu_cholesky_guard [OF wt Inr True, where cbs=cbs and clean=clean] run
    have "\<exists>e. r = Inl e \<and> s' = s" by auto
    then show ?thesis by blast
  next
    case False
    obtain r2 s2 where d: "dispatch cbs (in_core A0 dev opt) ?A1 ?u dev opt
        (gpu_info_of opt inventory) s = (r2, s2)" by force
    from False have g: "\<not> (chol_force_in_core opt \<and> \<not> in_core A0 dev opt)"
      "\<not> (?u \<and> \<not> in_core A0 dev opt)" "\<not> (\<not> in_core A0 dev opt \<and> is_cuda A0)"
      by blast+
    from gpu_cholesky_run [OF wt Inr refl refl g d, where clean=clean] run
    have "(case r2 of Inl e \<Rightarrow> r = Inl e \<and> s' = s2
           | Inr R \<Rightarrow> r = Inr (if is_f_contig A0 then A else tensor_T (tensor_T A)) \<and>
                 s' = (if clean then emit (ZeroTriang ?A1 (\<not> ?u)) s2 else s2))"
      by (cases r2) (auto split: if_splits)
    with Inr d show ?thesis by blast
  qed
qed

lemma gpu_cholesky_ok:
  assumes wt: "working_tensor A0 overwrite s0 = (A, s)"
      and run: "gpu_cholesky cbs inventory A0 upper0 clean overwrite opt s0 = (Inr R, s')"
  shows "\<exists>dev s2.
           choose_device A0 (gpu_info_of opt inventory) = Inr dev \<and>
           dispatch cbs (in_core A0 dev opt) (if is_f_contig A0 then A else tensor_T A)
             (if is_f_contig A0 then upper0 else \<not> upper0) dev opt (gpu_info_of opt inventory) s
             = (Inr (if is_f_contig A0 then A else tensor_T A), s2) \<and>
           finalize (if is_f_contig A0 then A else tensor_T A)
             (if is_f_contig A0 then upper0 else \<not> upper0) clean (\<not> is_f_contig A0) s2 = (R, s')"
proof -
  from gpu_cholesky_result [OF wt run] obtain dev r2 s2 where
    cd: "choose_device A0 (gpu_info_of opt inventory) = Inr dev" and
    d: "dispatch cbs (in_core A0 dev opt) (if is_f_contig A0 then A else tensor_T A)
              (if is_f_contig A0 then upper0 else \<not> upper0) dev opt (gpu_info_of opt inventory) s
              = (r2, s2)" and
    c: "(case r2 of
               Inl e \<Rightarrow> Inr R = (Inl e :: error + tensor) \<and> s' = s2
             | Inr R' \<Rightarrow>
                 Inr R = (Inr (if is_f_contig A0 then A else tensor_T (tensor_T A)) :: error + tensor) \<and>
                 s' = (if clean
                       then emit (ZeroTriang (if is_f_contig A0 then A else tensor_T A)
                              (\<not> (if is_f_contig A0 then upper0 else \<not> upper0))) s2
                       else s2))"
    by auto
  from c obtain R' where r2: "r2 = Inr R'" by (cases r2) auto
  from dispatch_ok d r2 have R': "R' = (if is_f_contig A0 then A else tensor_T A)" by blast
  from c r2 have "finalize (if is_f_contig A0 then A else tensor_T A)
             (if is_f_contig A0 then upper0 else \<not> upper0) clean (\<not> is_f_contig A0) s2 = (R, s')"
    by (auto simp: finalize_def Let_def)
  with cd d r2 R' show ?thesis by blast
qed

subsection \<open>Rounding to a double\<close>

lemma round_half_even_of_int [simp]: "round_half_even (of_int k) = k"
  by (simp add: round_half_even_def)

lemma round_half_even_ge: "of_int k \<le> y \<Longrightarrow> k \<le> round_half_even y"
proof -
  assume "of_int k \<le> y"
  then have "k \<le> \<lfloor>y\<rfloor>" by (simp add: le_floor_iff)
  then show ?thesis by (auto simp: round_half_even_def Let_def)
qed

lemma round_half_even_le: "y \<le> of_int k \<Longrightarrow> round_half_even y \<le> k"
proof -
  assume a: "y \<le> of_int k"
  then have f: "\<lfloor>y\<rfloor> \<le> k" by (simp add: floor_le_iff)
  show ?thesis
  proof (cases "y = of_int \<lfloor>y\<rfloor>")
    case True
    then have "round_half_even y = \<lfloor>y\<rfloor>"
      by (metis round_half_even_of_int)
    with f show ?thesis by simp
  next
    case False
    then have "of_int \<lfloor>y\<rfloor> < y"
      by (metis of_int_floor_le order.not_eq_order_implies_strict)
    with a have "of_int \<lfloor>y\<rfloor> < (of_int k :: real)" by linarith
    then have "\<lfloor>y\<rfloor> + 1 \<le> k" by simp
    with f show ?thesis by (auto simp: round_half_even_def Let_def)
  qed
qed

lemma round_half_even_tie: "round_half_even (of_int f + 1 / 2) = (if even f then f else f + 1)"
proof -
  have "\<lfloor>of_int f + 1 / 2 :: real\<rfloor> = f" by (intro floor_unique) simp_all
  then show ?thesis by (simp add: round_half_even_def Let_def)
qed

lemma binade_bounds:
  assumes lo: "2 ^ k \<le> \<bar>x\<bar>" and hi: "\<bar>x\<bar> < 2 ^ Suc k"
  shows "\<lfloor>log 2 \<bar>x\<bar>\<rfloor> = int k"
proof -
  have pos: "0 < \<bar>x\<bar>" using lo by (smt (verit) zero_less_power)
  have "real k \<le> log 2 \<bar>x\<bar>"
    using lo pos by (simp add: le_log_iff powr_realpow)
  moreover have "log 2 \<bar>x\<bar> < real (Suc k)"
    using hi pos by (simp only: log_less_iff [of 2, OF _ pos] powr_realpow)
  ultimately show ?thesis by (intro floor_unique) simp_all
qed

lemma ulp_eq:
  assumes lo: "2 ^ k \<le> \<bar>x\<bar>" and hi: "\<bar>x\<bar> < 2 ^ Suc k" and k: "k \<le> 52"
  shows "ulp x = 1 / 2 ^ (52 - k)"
proof -
  have "ulp x = 2 powr of_int (int k - 52)"
    by (simp add: ulp_def binade_bounds [OF lo hi])
  also have "of_int (int k - 52) = - real (52 - k)" using k by simp
  also have "2 powr (- real (52 - k)) = 1 / 2 ^ (52 - k)"
    by (simp add: powr_minus powr_realpow divide_inverse)
  finally show ?thesis .
qed

lemma round_double_eval:
  assumes lo: "2 ^ k \<le> \<bar>x\<bar>" and hi: "\<bar>x\<bar> < 2 ^ Suc k" and k: "k \<le> 52"
  shows "round_double x = of_int (round_half_even (x * 2 ^ (52 - k))) / 2 ^ (52 - k)"
proof -
  have "x \<noteq> 0" using lo by (smt (verit) zero_less_power abs_zero)
  then show ?thesis by (simp add: round_double_def ulp_eq [OF lo hi k])
qed

lemma round_double_between:
  assumes lo: "2 ^ k \<le> \<bar>x\<bar>" and hi: "\<bar>x\<bar> < 2 ^ Suc k" and k: "k + i \<le> 52"
      and a: "of_int a \<le> x * 2 ^ i" and c: "x * 2 ^ i \<le> of_int c"
  shows "of_int a \<le> round_double x * 2 ^ i \<and> round_double x * 2 ^ i \<le> of_int c"
proof -
  from k have k': "k \<le> 52" by simp
  let ?j = "52 - k"
  let ?d = "?j - i"
  have j: "?j = i + ?d" using k by simp
  have p: "(2::real) ^ ?j = 2 ^ i * 2 ^ ?d" by (subst j) (simp add: power_add)
  have "of_int (a * 2 ^ ?d) \<le> x * 2 ^ ?j"
    using a by (simp add: p mult.assoc [symmetric])
  then have A: "a * 2 ^ ?d \<le> round_half_even (x * 2 ^ ?j)" by (rule round_half_even_ge)
  have "x * 2 ^ ?j \<le> of_int (c * 2 ^ ?d)"
    using c by (simp add: p mult.assoc [symmetric])
  then have C: "round_half_even (x * 2 ^ ?j) \<le> c * 2 ^ ?d" by (rule round_half_even_le)
  have r: "round_double x * 2 ^ i = of_int (round_half_even (x * 2 ^ ?j)) / 2 ^ ?d"
    by (simp add: round_double_eval [OF lo hi k'] p)
  from A have "of_int (a * 2 ^ ?d) \<le> (of_int (round_half_even (x * 2 ^ ?j)) :: real)"
    by (simp only: of_int_le_iff)
  then have A': "of_int a \<le> of_int (round_half_even (x * 2 ^ ?j)) / (2::real) ^ ?d"
    by (simp add: pos_le_divide_eq)
  from C have "(of_int (round_half_even (x * 2 ^ ?j)) :: real) \<le> of_int (c * 2 ^ ?d)"
    by (simp only: of_int_le_iff)
  then have C': "of_int (round_half_even (x * 2 ^ ?j)) / (2::real) ^ ?d \<le> of_int c"
    by (simp add: pos_divide_le_eq)
  from A' C' show ?thesis by (simp only: r)
qed

lemma round_double_exact:
  assumes lo: "2 ^ k \<le> \<bar>x\<bar>" and hi: "\<bar>x\<bar> < 2 ^ Suc k" and k: "k + i \<le> 52"
      and a: "x * 2 ^ i = of_int a"
  shows "round_double x = x"
proof -
  from round_double_between [OF lo hi k, of a a] a
  have "round_double x * 2 ^ i = x * 2 ^ i" by simp
  then show ?thesis by simp
qed

lemma round_double_int:
  assumes lo: "2 ^ k \<le> \<bar>real_of_int m\<bar>" and hi: "\<bar>real_of_int m\<bar> < 2 ^ Suc k" and k: "k \<le> 52"
  shows "round_double (real_of_int m) = real_of_int m"
  using round_double_exact [OF lo hi, of 0 m] k by simp

subsection \<open>The block size\<close>




text \<open>The doubles of the examples.\<close>

lemma rd_7: "round_double 7 = 7"
  using round_double_int [of 2 7] by simp

lemma rd_14: "round_double 14 = 14"
  using round_double_int [of 3 14] by simp

lemma rd_20: "round_double 20 = 20"
  using round_double_int [of 4 20] by simp

lemma rd_34: "round_double 34 = 34"
  using round_double_int [of 5 34] by simp

lemma rd_190: "round_double 190 = 190"
  using round_double_int [of 7 190] by simp

lemma rd_400: "round_double 400 = 400"
  using round_double_int [of 8 400] by simp

lemma rd_756: "round_double 756 = 756"
  using round_double_int [of 9 756] by simp

lemma rd_760: "round_double 760 = 760"
  using round_double_int [of 9 760] by simp

lemma rd_1156: "round_double 1156 = 1156"
  using round_double_int [of 10 1156] by simp

lemma rd_1160: "round_double 1160 = 1160"
  using round_double_int [of 10 1160] by simp

lemmas rd_ints = rd_7 rd_14 rd_20 rd_34 rd_190 rd_400 rd_756 rd_760 rd_1156 rd_1160




lemma block_quotient_10_190:
  "7 \<le> block_quotient 10 190 \<and> block_quotient 10 190 * 2 \<le> 15"
proof -
  let ?s = "round_double (sqrt 1160)"
  let ?d = "round_double (?s - 20)"
  have lo: "(34::real) \<le> sqrt 1160" by (rule real_le_rsqrt) simp
  have hi: "sqrt 1160 \<le> (35::real)" by (rule real_le_lsqrt) simp_all
  from round_double_between [where k = 5 and i = 0 and a = 34 and c = 35 and x = "sqrt 1160"]
    lo hi have s: "34 \<le> ?s" "?s \<le> 35" by simp_all
  from round_double_between [where k = 3 and i = 0 and a = 14 and c = 15 and x = "?s - 20"] s
  have d: "14 \<le> ?d" "?d \<le> 15" by simp_all
  from round_double_between [where k = 2 and i = 1 and a = 14 and c = 15 and x = "?d / 2"] d
  have "14 \<le> round_double (?d / 2) * 2" "round_double (?d / 2) * 2 \<le> 15" by simp_all
  then show ?thesis by (simp add: block_quotient_def rd_ints)
qed

lemma max_block_size_10_190: "max_block_size 10 190 8 = Inr 7"
proof -
  from block_quotient_10_190 have "\<lfloor>block_quotient 10 190\<rfloor> = 7"
    by (intro floor_unique) simp_all
  then show ?thesis by (simp add: max_block_size_def overflows_def rd_ints)
qed

lemma rd_tie_a: "round_double (4 * tie_ram) = 4 * tie_ram"
  unfolding tie_ram_def
  by (rule round_double_exact [where k = 9 and i = 43 and a = "756 * 2 ^ 43 - 1"]) simp_all

lemma rd_tie_sum: "round_double (400 + 4 * tie_ram) = 1156"
proof -
  let ?x = "400 + 4 * tie_ram"
  have e: "?x * 2 ^ (52 - 10) = real_of_int (1156 * 2 ^ 42 - 1) + 1 / 2"
    by (simp add: tie_ram_def)
  have "round_double ?x = of_int (round_half_even (?x * 2 ^ (52 - 10))) / 2 ^ (52 - 10)"
    by (rule round_double_eval) (simp_all add: tie_ram_def)
  also have "round_half_even (?x * 2 ^ (52 - 10)) = 1156 * 2 ^ 42"
    unfolding e round_half_even_tie by simp
  finally show ?thesis by simp
qed

text \<open>
  Rounding can raise the double of line 91 above the exact quotient: for \<open>n = 10\<close> and
  \<open>tie_ram\<close> elements the sum rounds up to 1156, the block size is 7, and 189 elements do
  not fit.
\<close>

lemma rounding_raises_block_size:
  "max_block_size 10 tie_ram 8 = Inr 7 \<and>
   exact_quotient 10 tie_ram < block_quotient 10 tie_ram \<and>
   \<not> (real_of_int (7 ^ 2) * (2 * (real 10 / real_of_int 7) + 1) \<le> tie_ram)"
proof -
  have "sqrt 1156 = sqrt (34 ^ 2)" by simp
  also have "\<dots> = 34" by (simp only: real_sqrt_abs)
  finally have s: "sqrt 1156 = 34" .
  have q: "block_quotient 10 tie_ram = 7"
    by (simp add: block_quotient_def rd_ints rd_tie_a rd_tie_sum s)
  have "sqrt (400 + 4 * tie_ram) < 34"
    by (rule real_less_lsqrt) (simp_all add: tie_ram_def)
  then have e: "exact_quotient 10 tie_ram < 7"
    by (simp add: exact_quotient_def)
  have b: "0 \<le> tie_ram" "tie_ram < 190" by (simp_all add: tie_ram_def)
  then have o: "\<not> overflows (4 * tie_ram)"
    by (simp add: overflows_def rd_tie_a)
  have m: "max_block_size 10 tie_ram 8 = Inr 7"
    using b by (simp add: max_block_size_def overflows_def rd_ints rd_tie_a rd_tie_sum q)
  have n: "\<not> (real_of_int (7 ^ 2) * (2 * (real 10 / real_of_int 7) + 1) \<le> tie_ram)"
    by (simp add: tie_ram_def)
  from q e m n show ?thesis by simp
qed

subsection \<open>The allocation loop\<close>

text \<open>Starts and ends are the prefix sums of the block sizes.\<close>

lemma allocate_blocks_gen:
  "allocate_blocks d i c bs ba =
     \<lparr>ba_start = ba_start ba @ map (\<lambda>k. c + sum_list (take k bs)) [0..<length bs],
      ba_end = ba_end ba @ map (\<lambda>k. c + sum_list (take (Suc k) bs)) [0..<length bs],
      ba_size = ba_size ba @ bs,
      ba_device_id = ba_device_id ba @ map (\<lambda>k. (i + k) mod d) [0..<length bs],
      ba_id = ba_id ba @ map (\<lambda>k. i + k) [0..<length bs]\<rparr>"
proof (induction bs arbitrary: i c ba)
  case Nil
  show ?case by simp
next
  case (Cons b bs)
  show ?case
    by (simp add: Cons.IH map_upt_Suc add.assoc del: upt_Suc)
qed

lemma allocate_blocks_empty:
  "allocate_blocks d 0 0 bs empty_allocations =
     \<lparr>ba_start = map (\<lambda>k. sum_list (take k bs)) [0..<length bs],
      ba_end = map (\<lambda>k. sum_list (take (Suc k) bs)) [0..<length bs],
      ba_size = bs,
      ba_device_id = map (\<lambda>k. k mod d) [0..<length bs],
      ba_id = [0..<length bs]\<rparr>"
  by (simp add: allocate_blocks_gen empty_allocations_def map_idI)

lemma sum_list_take_mono:
  fixes bs :: "nat list"
  shows "i \<le> j \<Longrightarrow> sum_list (take i bs) \<le> sum_list (take j bs)"
proof (induction bs arbitrary: i j)
  case Nil
  then show ?case by simp
next
  case (Cons b bs)
  then show ?case by (cases i; cases j) auto
qed

lemma sum_list_take_Suc:
  fixes bs :: "nat list"
  shows "k < length bs \<Longrightarrow> sum_list (take (Suc k) bs) = sum_list (take k bs) + bs ! k"
  by (simp add: take_Suc_conv_app_nth)

lemma prefix_cover:
  fixes bs :: "nat list"
  shows "(\<Union>k<length bs. {sum_list (take k bs) ..< sum_list (take (Suc k) bs)}) = {0 ..< sum_list bs}"
proof (induction bs rule: rev_induct)
  case Nil
  show ?case by simp
next
  case (snoc b bs)
  have "(\<Union>k<length (bs @ [b]). {sum_list (take k (bs @ [b])) ..< sum_list (take (Suc k) (bs @ [b]))})
       = (\<Union>k<length bs. {sum_list (take k (bs @ [b])) ..< sum_list (take (Suc k) (bs @ [b]))})
         \<union> {sum_list bs ..< sum_list bs + b}"
    by (simp add: lessThan_Suc Un_commute)
  also have "(\<Union>k<length bs. {sum_list (take k (bs @ [b])) ..< sum_list (take (Suc k) (bs @ [b]))})
       = (\<Union>k<length bs. {sum_list (take k bs) ..< sum_list (take (Suc k) bs)})"
    by (intro SUP_cong) (auto simp: Suc_le_eq)
  also have "\<dots> = {0 ..< sum_list bs}" by (rule snoc.IH)
  also have "{0 ..< sum_list bs} \<union> {sum_list bs ..< sum_list bs + b} = {0 ..< sum_list (bs @ [b])}"
    by auto
  finally show ?case .
qed

subsection \<open>The example runs\<close>

lemma gpu_info0: "gpu_info_of opt (inventory0) = [set_actual_free_mem opt gpu0]"
  by (simp add: gpu_info_of_def inventory0_def)

lemma gpu_info_opt0: "gpu_info_of opt0 inventory0 = [usable0]"
  by (simp add: gpu_info0 set_actual_free_mem_def opt0_def gpu0_def usable0_def)

lemma gpu_info_opt0_flags:
  "gpu_info_of (opt0\<lparr>chol_force_in_core := a, chol_force_ooc := b\<rparr>) inventory0 = [usable0]"
  by (simp add: gpu_info0 set_actual_free_mem_def opt0_def gpu0_def usable0_def)

lemma choose_host0: "choose_device host_mat [usable0] = Inr usable0"
  by (simp add: choose_device_def host_mat_def max_by_key_def)

lemma choose_cuda0: "choose_device cuda_mat [usable0] = Inr usable0"
  by (simp add: choose_device_def cuda_mat_def usable0_def)

lemma choose_rowmajor0: "choose_device rowmajor_mat [usable0] = Inr usable0"
  by (simp add: choose_device_def rowmajor_mat_def max_by_key_def)

lemma choose_big0: "choose_device big_mat [usable0] = Inr usable0"
  by (simp add: choose_device_def big_mat_def max_by_key_def)

lemma in_core_rowmajor0: "in_core rowmajor_mat usable0 opt0"
  by (simp add: in_core_def can_do_ic_def needed_ram_def is_cuda_def rowmajor_mat_def
      usable0_def opt0_def)

lemma working_rowmajor0:
  "working_tensor rowmajor_mat False s_init =
     (copy0, \<lparr>next_ptr = 2, trace = [CopySameStride rowmajor_mat copy0]\<rparr>)"
  by (simp add: working_tensor_def copy_same_stride_def rowmajor_mat_def copy0_def s_init_def
      emit_def Let_def numeral_2_eq_2)

lemma dispatch_rowmajor0:
  "dispatch planner0 True (tensor_T copy0) True usable0 opt0 [usable0]
     \<lparr>next_ptr = 2, trace = [CopySameStride rowmajor_mat copy0]\<rparr> =
   (Inr (tensor_T copy0),
    \<lparr>next_ptr = 3,
     trace = [CopySameStride rowmajor_mat copy0, CreateFortran staged0,
              Copy (tensor_T copy0) staged0, CusolverPotrf staged0 True 10 10,
              Copy staged0 (tensor_T copy0), StreamSynchronize 0]\<rparr>)"
  by (simp add: dispatch_def log_debug_def opt0_def ic_cholesky_def is_f_contig_def
      tensor_T_def copy0_def is_cuda_def create_fortran_def emit_def usable0_def staged0_def
      Let_def)

lemma run_rowmajor0:
  "gpu_cholesky planner0 inventory0 rowmajor_mat False True False opt0 s_init = (Inr copy0, final0)"
proof -
  have dev: "choose_device rowmajor_mat (gpu_info_of opt0 inventory0) = Inr usable0"
    by (simp add: gpu_info_opt0 choose_rowmajor0)
  have nf: "\<not> is_f_contig rowmajor_mat"
    by (simp add: is_f_contig_def rowmajor_mat_def)
  have d: "dispatch planner0 (in_core rowmajor_mat usable0 opt0) (tensor_T copy0) True usable0 opt0
      (gpu_info_of opt0 inventory0) \<lparr>next_ptr = 2, trace = [CopySameStride rowmajor_mat copy0]\<rparr> =
   (Inr (tensor_T copy0),
    \<lparr>next_ptr = 3,
     trace = [CopySameStride rowmajor_mat copy0, CreateFortran staged0,
              Copy (tensor_T copy0) staged0, CusolverPotrf staged0 True 10 10,
              Copy staged0 (tensor_T copy0), StreamSynchronize 0]\<rparr>)"
    by (simp add: in_core_rowmajor0 gpu_info_opt0 dispatch_rowmajor0)
  have tt: "tensor_T (tensor_T copy0) = copy0" by (simp add: tensor_T_def)
  show ?thesis
    by (simp add: gpu_cholesky_run [OF working_rowmajor0 dev _ _ _ _ _ d] nf in_core_rowmajor0
        tt final0_def emit_def)
qed

lemma runner_example:
  "parallel_potrf_runner planner0 host_mat (opt0\<lparr>chol_force_ooc := True\<rparr>) [usable0] s =
     (Inr host_mat,
      s\<lparr>trace := trace s @ [StreamSynchronize 0, ParallelPotrf [0] blocks0 host_mat]\<rparr>)"
  by (simp add: parallel_potrf_runner_def host_mat_def usable0_def min_list_real_def rd_190
      max_block_size_10_190 planner0_def opt0_def empty_allocations_def blocks0_def emit_def)

lemma runner_spec_example:
  "parallel_potrf_runner (calc_block_sizes_spec same_size) host_mat
     (opt0\<lparr>chol_force_ooc := True\<rparr>) [usable0] s =
     (Inr host_mat,
      s\<lparr>trace := trace s @ [StreamSynchronize 0, ParallelPotrf [0] blocks0 host_mat]\<rparr>)"
  by (simp add: parallel_potrf_runner_def host_mat_def usable0_def min_list_real_def rd_190
      max_block_size_10_190 calc_block_sizes_spec_def same_size_def opt0_def
      empty_allocations_def blocks0_def emit_def)

subsection \<open>The allocation of the runner, for every planner\<close>

lemma runner_allocation:
  assumes run: "parallel_potrf_runner cbs A opt gpu_info s = (Inr R, s')"
  shows "\<exists>b ba.
           cbs b (length gpu_info) (fst (shape A)) (chol_par_blk_multiplier opt) = Inr (ba_size ba) \<and>
           new_events s s' =
             map (\<lambda>g. StreamSynchronize (int g)) [0..<length gpu_info] @
             [ParallelPotrf [0..<length gpu_info] ba A] \<and>
           length (ba_start ba) = length (ba_size ba) \<and>
           length (ba_end ba) = length (ba_size ba) \<and>
           ba_id ba = [0..<length (ba_size ba)] \<and>
           ba_device_id ba = map (\<lambda>i. i mod length gpu_info) [0..<length (ba_size ba)] \<and>
           (\<forall>i < length (ba_size ba). ba_end ba ! i = ba_start ba ! i + ba_size ba ! i) \<and>
           (ba_size ba \<noteq> [] \<longrightarrow> ba_start ba ! 0 = 0) \<and>
           (\<forall>i. Suc i < length (ba_size ba) \<longrightarrow> ba_start ba ! Suc i = ba_end ba ! i) \<and>
           (\<forall>i j. i < j \<and> j < length (ba_size ba) \<longrightarrow> ba_end ba ! i \<le> ba_start ba ! j) \<and>
           (\<Union>i < length (ba_size ba). {ba_start ba ! i ..< ba_end ba ! i})
              = {0 ..< sum_list (ba_size ba)}"
proof -
  from run obtain b bs where
    plan: "cbs b (length gpu_info) (fst (shape A)) (chol_par_blk_multiplier opt) = Inr bs" and
    tr: "trace s' = trace s @ map (\<lambda>g. StreamSynchronize (int g)) [0..<length gpu_info] @
           [ParallelPotrf [0..<length gpu_info]
              (allocate_blocks (length gpu_info) 0 0 bs empty_allocations) A]"
    by (auto simp: parallel_potrf_runner_def Let_def trace_sync_loop
        split: list.splits sum.splits)
  let ?ba = "allocate_blocks (length gpu_info) 0 0 bs empty_allocations"
  note ab = allocate_blocks_empty [of "length gpu_info" bs]
  have sz: "ba_size ?ba = bs" by (simp add: ab)
  have st: "\<And>i. i < length bs \<Longrightarrow> ba_start ?ba ! i = sum_list (take i bs)"
    by (simp add: ab)
  have en: "\<And>i. i < length bs \<Longrightarrow> ba_end ?ba ! i = sum_list (take (Suc i) bs)"
    by (simp add: ab)
  have c1: "cbs b (length gpu_info) (fst (shape A)) (chol_par_blk_multiplier opt) = Inr (ba_size ?ba)"
    using plan sz by simp
  have c2: "new_events s s' = map (\<lambda>g. StreamSynchronize (int g)) [0..<length gpu_info] @
             [ParallelPotrf [0..<length gpu_info] ?ba A]"
    using tr by (simp add: new_events_def)
  have c3: "length (ba_start ?ba) = length (ba_size ?ba)" "length (ba_end ?ba) = length (ba_size ?ba)"
    "ba_id ?ba = [0..<length (ba_size ?ba)]"
    "ba_device_id ?ba = map (\<lambda>i. i mod length gpu_info) [0..<length (ba_size ?ba)]"
    by (simp_all add: ab)
  have c4: "\<forall>i < length (ba_size ?ba). ba_end ?ba ! i = ba_start ?ba ! i + ba_size ?ba ! i"
    by (simp add: sz st en sum_list_take_Suc)
  have c5: "ba_size ?ba \<noteq> [] \<longrightarrow> ba_start ?ba ! 0 = 0"
    by (simp add: sz st)
  have c6: "\<forall>i. Suc i < length (ba_size ?ba) \<longrightarrow> ba_start ?ba ! Suc i = ba_end ?ba ! i"
    by (simp add: sz st en)
  have c7: "\<forall>i j. i < j \<and> j < length (ba_size ?ba) \<longrightarrow> ba_end ?ba ! i \<le> ba_start ?ba ! j"
  proof (intro allI impI)
    fix i j assume ij: "i < j \<and> j < length (ba_size ?ba)"
    then have "Suc i \<le> j" "i < length bs" "j < length bs" by (simp_all add: sz)
    then show "ba_end ?ba ! i \<le> ba_start ?ba ! j"
      by (simp add: st en sum_list_take_mono)
  qed
  have c8: "(\<Union>i < length (ba_size ?ba). {ba_start ?ba ! i ..< ba_end ?ba ! i})
              = {0 ..< sum_list (ba_size ?ba)}"
  proof -
    have "(\<Union>i < length bs. {ba_start ?ba ! i ..< ba_end ?ba ! i})
        = (\<Union>i < length bs. {sum_list (take i bs) ..< sum_list (take (Suc i) bs)})"
      by (intro SUP_cong refl) (simp add: st en)
    then show ?thesis by (simp only: sz prefix_cover)
  qed
  show ?thesis
    apply (rule exI [of _ b])
    apply (rule exI [of _ ?ba])
    apply (intro conjI)
    apply (rule c1 c2 c3 c4 c5 c6 c7 c8)+
    done
qed


section \<open>Theorems\<close>

subsection \<open>Block planning\<close>




text \<open>
  Claim C6. With the block planner of the spec, whatever the derivation of the final
  block size: when the out-of-core runner dispatches, after synchronising every device,
  the allocation it passes to the kernel lists the blocks in order. Block \<open>i\<close> has id \<open>i\<close>
  and device \<open>i mod num_gpus\<close>, its end is its start plus its size, the first block starts
  at 0, each block starts where the one before ends, blocks do not overlap, and together
  they cover \<open>[0, n)\<close> exactly. Every block but the last has the final block size, and the
  last has \<open>n mod block_size\<close> when that is not zero, the final block size otherwise.
\<close>

theorem block_allocation_partition:
  assumes run: "parallel_potrf_runner (calc_block_sizes_spec final_block_size) A opt gpu_info s
                  = (Inr R, s')"
  shows "\<exists>b ba.
           1 \<le> final_block_size b (chol_par_blk_multiplier opt) \<and>
           new_events s s' =
             map (\<lambda>g. StreamSynchronize (int g)) [0..<length gpu_info] @
             [ParallelPotrf [0..<length gpu_info] ba A] \<and>
           length (ba_start ba) = length (ba_size ba) \<and>
           length (ba_end ba) = length (ba_size ba) \<and>
           ba_id ba = [0..<length (ba_size ba)] \<and>
           ba_device_id ba = map (\<lambda>i. i mod length gpu_info) [0..<length (ba_size ba)] \<and>
           (\<forall>i < length (ba_size ba). ba_end ba ! i = ba_start ba ! i + ba_size ba ! i) \<and>
           (ba_size ba \<noteq> [] \<longrightarrow> ba_start ba ! 0 = 0) \<and>
           (\<forall>i. Suc i < length (ba_size ba) \<longrightarrow> ba_start ba ! Suc i = ba_end ba ! i) \<and>
           (\<forall>i j. i < j \<and> j < length (ba_size ba) \<longrightarrow> ba_end ba ! i \<le> ba_start ba ! j) \<and>
           (\<Union>i < length (ba_size ba). {ba_start ba ! i ..< ba_end ba ! i})
              = {0 ..< fst (shape A)} \<and>
           (\<forall>i. Suc i < length (ba_size ba) \<longrightarrow>
              ba_size ba ! i = final_block_size b (chol_par_blk_multiplier opt)) \<and>
           (ba_size ba \<noteq> [] \<longrightarrow>
              last (ba_size ba) =
                (if fst (shape A) mod final_block_size b (chol_par_blk_multiplier opt) = 0
                 then final_block_size b (chol_par_blk_multiplier opt)
                 else fst (shape A) mod final_block_size b (chol_par_blk_multiplier opt)))"
proof -
  let ?n = "fst (shape A)"
  from runner_allocation [OF run] obtain b ba where
    plan: "calc_block_sizes_spec final_block_size b (length gpu_info) ?n
             (chol_par_blk_multiplier opt) = Inr (ba_size ba)" and
    c2: "new_events s s' =
             map (\<lambda>g. StreamSynchronize (int g)) [0..<length gpu_info] @
             [ParallelPotrf [0..<length gpu_info] ba A]" and
    c3: "length (ba_start ba) = length (ba_size ba)" "length (ba_end ba) = length (ba_size ba)"
        "ba_id ba = [0..<length (ba_size ba)]"
        "ba_device_id ba = map (\<lambda>i. i mod length gpu_info) [0..<length (ba_size ba)]" and
    c4: "\<forall>i < length (ba_size ba). ba_end ba ! i = ba_start ba ! i + ba_size ba ! i" and
    c5: "ba_size ba \<noteq> [] \<longrightarrow> ba_start ba ! 0 = 0" and
    c6: "\<forall>i. Suc i < length (ba_size ba) \<longrightarrow> ba_start ba ! Suc i = ba_end ba ! i" and
    c7: "\<forall>i j. i < j \<and> j < length (ba_size ba) \<longrightarrow> ba_end ba ! i \<le> ba_start ba ! j" and
    c8: "(\<Union>i < length (ba_size ba). {ba_start ba ! i ..< ba_end ba ! i})
              = {0 ..< sum_list (ba_size ba)}"
    by (elim exE conjE) (rule that)
  let ?bs = "final_block_size b (chol_par_blk_multiplier opt)"
  from plan have c1: "1 \<le> ?bs"
    and sz: "ba_size ba = replicate (?n div ?bs) ?bs @ (if ?n mod ?bs = 0 then [] else [?n mod ?bs])"
    by (auto simp: calc_block_sizes_spec_def Let_def split: if_splits)
  have sum: "sum_list (ba_size ba) = ?n"
  proof (cases "?n mod ?bs = 0")
    case True
    then have "?n div ?bs * ?bs = ?n" by (simp add: mod_eq_0_iff_dvd)
    with True show ?thesis by (simp add: sz sum_list_replicate)
  next
    case False
    then show ?thesis by (simp add: sz sum_list_replicate)
  qed
  have c9: "(\<Union>i < length (ba_size ba). {ba_start ba ! i ..< ba_end ba ! i}) = {0 ..< ?n}"
    using c8 by (simp only: sum)
  have c10: "\<forall>i. Suc i < length (ba_size ba) \<longrightarrow> ba_size ba ! i = ?bs"
  proof (intro allI impI)
    fix i assume "Suc i < length (ba_size ba)"
    then have "i < ?n div ?bs" by (simp add: sz split: if_splits)
    then show "ba_size ba ! i = ?bs" by (simp add: sz nth_append)
  qed
  have c11: "ba_size ba \<noteq> [] \<longrightarrow> last (ba_size ba) = (if ?n mod ?bs = 0 then ?bs else ?n mod ?bs)"
    by (simp add: sz)
  show ?thesis
    apply (rule exI [of _ b])
    apply (rule exI [of _ ba])
    apply (intro conjI)
    apply (rule c1 c2 c3 c4 c5 c6 c7 c9 c10 c11)+
    done
qed

theorem block_allocation_partition_witness:
  "parallel_potrf_runner (calc_block_sizes_spec same_size) host_mat
     (opt0\<lparr>chol_force_ooc := True\<rparr>) [usable0] s_init =
     (Inr host_mat,
      s_init\<lparr>trace := trace s_init @ [StreamSynchronize 0, ParallelPotrf [0] blocks0 host_mat]\<rparr>) \<and>
   (\<Union>i < length (ba_size blocks0). {ba_start blocks0 ! i ..< ba_end blocks0 ! i})
      = {0 ..< fst (shape host_mat)} \<and>
   ba_id blocks0 = [0..<length (ba_size blocks0)]"
proof -
  note run = runner_spec_example [of s_init]
  from block_allocation_partition [OF run] obtain b ba where
    ev: "new_events s_init
           (s_init\<lparr>trace := trace s_init @ [StreamSynchronize 0, ParallelPotrf [0] blocks0 host_mat]\<rparr>)
         = map (\<lambda>g. StreamSynchronize (int g)) [0..<length [usable0]] @
             [ParallelPotrf [0..<length [usable0]] ba host_mat]" and
    cov: "(\<Union>i < length (ba_size ba). {ba_start ba ! i ..< ba_end ba ! i})
                = {0 ..< fst (shape host_mat)}" and
    ids: "ba_id ba = [0..<length (ba_size ba)]"
    by (elim exE conjE) (rule that)
  from ev have ba: "ba = blocks0" by (simp add: new_events_def)
  from cov ids run show ?thesis by (simp only: ba)
qed

subsection \<open>Memory budget\<close>

text \<open>
  Claim C8. \<open>gpu_cholesky\<close> works with one record per visible device of the inventory
  (index at least 0), in the inventory's order. Each keeps the identifier and the raw free
  memory of its device, its usable memory is
  \<open>min ((free_memory - 300 MiB) * 0.95) (max_gpu_mem * 0.95)\<close> of that raw free memory, and
  this is at most the raw free memory when that is not negative. It is computed from the
  inventory of the call: the value of \<open>actual_free_mem\<close> that a \<open>DeviceInfo\<close> carries on
  entry (left there by an earlier call) has no influence. Over the reals.
\<close>

theorem usable_memory_bound:
  "length (gpu_info_of opt inventory) = length (filter (\<lambda>(k, v). 0 \<le> k) inventory) \<and>
   (\<forall>i < length (filter (\<lambda>(k, v). 0 \<le> k) inventory).
      Id' (gpu_info_of opt inventory ! i) = Id' (snd (filter (\<lambda>(k, v). 0 \<le> k) inventory ! i)) \<and>
      free_memory (gpu_info_of opt inventory ! i) =
        free_memory (snd (filter (\<lambda>(k, v). 0 \<le> k) inventory ! i)) \<and>
      actual_free_mem (gpu_info_of opt inventory ! i) =
        min ((free_memory (snd (filter (\<lambda>(k, v). 0 \<le> k) inventory ! i)) - 300 * 2 ^ 20) * 0.95)
            (max_gpu_mem opt * 0.95) \<and>
      (0 \<le> free_memory (snd (filter (\<lambda>(k, v). 0 \<le> k) inventory ! i)) \<longrightarrow>
         actual_free_mem (gpu_info_of opt inventory ! i)
           \<le> free_memory (snd (filter (\<lambda>(k, v). 0 \<le> k) inventory ! i)))) \<and>
   gpu_info_of opt (map (\<lambda>(k, g). (k, g\<lparr>actual_free_mem := stale k g\<rparr>)) inventory) =
     gpu_info_of opt inventory"
proof (intro conjI allI impI)
  let ?vis = "filter (\<lambda>(k, v). 0 \<le> k) inventory"
  show "length (gpu_info_of opt inventory) = length ?vis"
    by (simp add: gpu_info_of_def)
  show "gpu_info_of opt (map (\<lambda>(k, g). (k, g\<lparr>actual_free_mem := stale k g\<rparr>)) inventory) =
     gpu_info_of opt inventory"
    by (induction inventory) (auto simp: gpu_info_of_def set_actual_free_mem_def)
  fix i assume i: "i < length ?vis"
  then have g: "gpu_info_of opt inventory ! i = set_actual_free_mem opt (snd (?vis ! i))"
    by (simp add: gpu_info_of_def)
  show "Id' (gpu_info_of opt inventory ! i) = Id' (snd (?vis ! i))"
    by (simp add: g set_actual_free_mem_def)
  show "free_memory (gpu_info_of opt inventory ! i) = free_memory (snd (?vis ! i))"
    by (simp add: g set_actual_free_mem_def)
  show "actual_free_mem (gpu_info_of opt inventory ! i) =
        min ((free_memory (snd (?vis ! i)) - 300 * 2 ^ 20) * 0.95) (max_gpu_mem opt * 0.95)"
    by (simp add: g set_actual_free_mem_def)
  assume "0 \<le> free_memory (snd (?vis ! i))"
  then show "actual_free_mem (gpu_info_of opt inventory ! i) \<le> free_memory (snd (?vis ! i))"
    by (simp add: g set_actual_free_mem_def min_def)
qed

theorem usable_memory_bound_witness:
  "filter (\<lambda>(k, v). 0 \<le> k) inventory1 = [(0, gpu0), (1, gpu1)] \<and>
   gpu_info_of opt0 inventory1 = [usable0, gpu1\<lparr>actual_free_mem := - 298844065\<rparr>] \<and>
   (0::real) \<le> free_memory gpu1 \<and>
   actual_free_mem (gpu_info_of opt0 inventory1 ! 1) \<le> free_memory gpu1"
proof -
  have v: "filter (\<lambda>(k, v). 0 \<le> k) inventory1 = [(0, gpu0), (1, gpu1)]"
    by (simp add: inventory1_def)
  have g: "gpu_info_of opt0 inventory1 = [usable0, gpu1\<lparr>actual_free_mem := - 298844065\<rparr>]"
    by (simp add: gpu_info_of_def inventory1_def set_actual_free_mem_def opt0_def gpu0_def
        gpu1_def usable0_def)
  have f: "(0::real) \<le> free_memory gpu1" by (simp add: gpu1_def)
  note t = usable_memory_bound [of opt0 inventory1 "\<lambda>k g. 0", THEN conjunct2, THEN conjunct1,
      rule_format, of 1]
  have "1 < length (filter (\<lambda>(k, v). 0 \<le> k) inventory1)" by (simp add: v)
  from t [OF this]
  have "0 \<le> free_memory (snd (filter (\<lambda>(k, v). 0 \<le> k) inventory1 ! 1)) \<longrightarrow>
        actual_free_mem (gpu_info_of opt0 inventory1 ! 1)
          \<le> free_memory (snd (filter (\<lambda>(k, v). 0 \<le> k) inventory1 ! 1))"
    by blast
  with f have "actual_free_mem (gpu_info_of opt0 inventory1 ! 1) \<le> free_memory gpu1"
    by (simp add: v)
  with v g f show ?thesis by (intro conjI)
qed

subsection \<open>Strategy selection\<close>

text \<open>
  Claim C2. With a device chosen and an \<open>n\<close> x \<open>n\<close> matrix, the flag \<open>ic\<close> of
  \<open>gpu_cholesky\<close> holds exactly when out-of-core is not forced and the usable memory of
  the chosen device times 0.85 is at least the need: 800 bytes for a device-resident
  matrix, \<open>n\<^sup>2\<close> times the element size for a host-resident one. When the call returns, it
  has run the in-core kernel exactly when \<open>ic\<close> holds, and the out-of-core kernel exactly
  when it does not.
\<close>

theorem in_core_selection:
  assumes dev: "choose_device A0 (gpu_info_of opt inventory) = Inr dev"
      and sq: "shape A0 = (n, n)"
  shows "(in_core A0 dev opt \<longleftrightarrow>
            \<not> chol_force_ooc opt \<and>
            actual_free_mem dev * 0.85 \<ge>
              (if is_cuda A0 then 100 * 8 else real (n ^ 2 * sizeof_dtype (dtype A0)))) \<and>
         (gpu_cholesky cbs inventory A0 upper0 clean overwrite opt s0 = (Inr R, s') \<longrightarrow>
            (\<exists>e \<in> set (new_events s0 s'). is_ic_kernel e) = in_core A0 dev opt \<and>
            (\<exists>e \<in> set (new_events s0 s'). is_ooc_kernel e) = (\<not> in_core A0 dev opt))"
proof
  show "in_core A0 dev opt \<longleftrightarrow>
            \<not> chol_force_ooc opt \<and>
            actual_free_mem dev * 0.85 \<ge>
              (if is_cuda A0 then 100 * 8 else real (n ^ 2 * sizeof_dtype (dtype A0)))"
    using sq by (auto simp: in_core_def can_do_ic_def needed_ram_def power2_eq_square)
  show "gpu_cholesky cbs inventory A0 upper0 clean overwrite opt s0 = (Inr R, s') \<longrightarrow>
            (\<exists>e \<in> set (new_events s0 s'). is_ic_kernel e) = in_core A0 dev opt \<and>
            (\<exists>e \<in> set (new_events s0 s'). is_ooc_kernel e) = (\<not> in_core A0 dev opt)"
  proof
    assume run: "gpu_cholesky cbs inventory A0 upper0 clean overwrite opt s0 = (Inr R, s')"
    obtain A s where wt: "working_tensor A0 overwrite s0 = (A, s)" by force
    from gpu_cholesky_ok [OF wt run] dev obtain s2 where
      d: "dispatch cbs (in_core A0 dev opt) (if is_f_contig A0 then A else tensor_T A)
             (if is_f_contig A0 then upper0 else \<not> upper0) dev opt (gpu_info_of opt inventory) s
             = (Inr (if is_f_contig A0 then A else tensor_T A), s2)" and
      f: "finalize (if is_f_contig A0 then A else tensor_T A)
             (if is_f_contig A0 then upper0 else \<not> upper0) clean (\<not> is_f_contig A0) s2 = (R, s')"
      by auto
    from dispatch_ok [OF d] obtain ev where
      ev: "trace s2 = trace s @ ev"
          "(\<exists>x \<in> set ev. is_ic_kernel x) = in_core A0 dev opt"
          "(\<exists>x \<in> set ev. is_ooc_kernel x) = (\<not> in_core A0 dev opt)"
      by blast
    from f have "trace s' = trace s2 @
        (if clean then [ZeroTriang (if is_f_contig A0 then A else tensor_T A)
           (\<not> (if is_f_contig A0 then upper0 else \<not> upper0))] else [])"
      by (auto simp: finalize_def Let_def)
    with ev(1) working_tensor_trace [OF wt]
    have "new_events s0 s' = (if overwrite then [] else [CopySameStride A0 A]) @ ev @
        (if clean then [ZeroTriang (if is_f_contig A0 then A else tensor_T A)
           (\<not> (if is_f_contig A0 then upper0 else \<not> upper0))] else [])"
      by (simp add: new_events_def)
    with ev(2,3) show "(\<exists>e \<in> set (new_events s0 s'). is_ic_kernel e) = in_core A0 dev opt \<and>
            (\<exists>e \<in> set (new_events s0 s'). is_ooc_kernel e) = (\<not> in_core A0 dev opt)"
      by auto
  qed
qed

theorem in_core_selection_witness:
  "choose_device rowmajor_mat (gpu_info_of opt0 inventory0) = Inr usable0 \<and>
   shape rowmajor_mat = (10, 10) \<and>
   gpu_cholesky planner0 inventory0 rowmajor_mat False True False opt0 s_init = (Inr copy0, final0) \<and>
   in_core rowmajor_mat usable0 opt0 \<and>
   (\<exists>e \<in> set (new_events s_init final0). is_ic_kernel e)"
proof -
  have dev: "choose_device rowmajor_mat (gpu_info_of opt0 inventory0) = Inr usable0"
    by (simp add: gpu_info_opt0 choose_rowmajor0)
  have sq: "shape rowmajor_mat = (10, 10)" by (simp add: rowmajor_mat_def)
  note t = in_core_selection [OF dev sq, of planner0 False True False s_init copy0 final0]
  from t have ic: "in_core rowmajor_mat usable0 opt0"
    by (simp add: opt0_def usable0_def rowmajor_mat_def is_cuda_def)
  from t run_rowmajor0 ic have "\<exists>e \<in> set (new_events s_init final0). is_ic_kernel e"
    by blast
  with dev sq run_rowmajor0 ic show ?thesis by simp
qed

text \<open>
  Claim C10. For a device-resident matrix \<open>can_do_ic\<close> compares the usable memory of the
  device times 0.85 with the constant 800, whatever the shape of the matrix: with at
  least 800 bytes on that side, in-core is feasible for every shape.
\<close>

theorem device_resident_needs_800:
  "is_cuda A \<Longrightarrow>
     can_do_ic A dev = (actual_free_mem dev * 0.85 \<ge> 800) \<and>
     can_do_ic (A\<lparr>shape := sh\<rparr>) dev = can_do_ic A dev \<and>
     (actual_free_mem dev * 0.85 \<ge> 800 \<longrightarrow> can_do_ic (A\<lparr>shape := sh\<rparr>) dev)"
  by (simp add: can_do_ic_def needed_ram_def is_cuda_def)

theorem device_resident_needs_800_witness:
  "is_cuda cuda_mat \<and> actual_free_mem usable0 * 0.85 \<ge> 800 \<and>
   can_do_ic cuda_mat usable0 \<and>
   can_do_ic (cuda_mat\<lparr>shape := (100000, 100000)\<rparr>) usable0"
proof -
  have cu: "is_cuda cuda_mat" by (simp add: is_cuda_def cuda_mat_def)
  have mem: "actual_free_mem usable0 * 0.85 \<ge> 800" by (simp add: usable0_def)
  from device_resident_needs_800 [OF cu, of usable0 "(100000, 100000)"] cu mem show ?thesis
    by simp
qed

subsection \<open>Errors before dispatch\<close>

text \<open>
  Claim C5. If \<open>chol_force_in_core\<close> is set and the flag \<open>ic\<close> is false for the chosen
  device, \<open>gpu_cholesky\<close> raises the \<open>RuntimeError\<close> "Cannot run in-core POTRF but
  `chol_force_in_core` was specified." right after the optional copy: the state is the one
  the copy left, and no kernel has been called.
\<close>

theorem force_in_core_fails_fast:
  assumes force: "chol_force_in_core opt"
      and dev: "choose_device A0 (gpu_info_of opt inventory) = Inr dev"
      and nic: "\<not> in_core A0 dev opt"
  shows "gpu_cholesky cbs inventory A0 upper0 clean overwrite opt s0 =
           (Inl (RuntimeError msg_force_in_core), snd (working_tensor A0 overwrite s0)) \<and>
         (\<forall>e \<in> set (new_events s0 (snd (gpu_cholesky cbs inventory A0 upper0 clean overwrite opt s0))).
            \<not> is_kernel e)"
proof -
  obtain A s where wt: "working_tensor A0 overwrite s0 = (A, s)" by force
  have r: "gpu_cholesky cbs inventory A0 upper0 clean overwrite opt s0 =
           (Inl (RuntimeError msg_force_in_core), s)"
    using gpu_cholesky_cases [OF wt dev] force nic by (simp add: Let_def)
  show ?thesis using r working_tensor_no_kernel [OF wt] by (simp add: wt)
qed

theorem force_in_core_fails_fast_witness:
  "chol_force_in_core (opt0\<lparr>chol_force_in_core := True\<rparr>) \<and>
   choose_device big_mat (gpu_info_of (opt0\<lparr>chol_force_in_core := True\<rparr>) inventory0) = Inr usable0 \<and>
   \<not> in_core big_mat usable0 (opt0\<lparr>chol_force_in_core := True\<rparr>) \<and>
   gpu_cholesky planner0 inventory0 big_mat False False True (opt0\<lparr>chol_force_in_core := True\<rparr>) s_init
     = (Inl (RuntimeError msg_force_in_core), s_init)"
proof -
  have f: "chol_force_in_core (opt0\<lparr>chol_force_in_core := True\<rparr>)" by simp
  have gi: "gpu_info_of (opt0\<lparr>chol_force_in_core := True\<rparr>) inventory0 = [usable0]"
    by (simp add: gpu_info0 set_actual_free_mem_def opt0_def gpu0_def usable0_def)
  have dev: "choose_device big_mat (gpu_info_of (opt0\<lparr>chol_force_in_core := True\<rparr>) inventory0) = Inr usable0"
    by (simp add: gi choose_big0)
  have nic: "\<not> in_core big_mat usable0 (opt0\<lparr>chol_force_in_core := True\<rparr>)"
    by (simp add: in_core_def can_do_ic_def needed_ram_def is_cuda_def big_mat_def usable0_def)
  from force_in_core_fails_fast [OF f dev nic, of planner0 False False True s_init]
  have "gpu_cholesky planner0 inventory0 big_mat False False True (opt0\<lparr>chol_force_in_core := True\<rparr>) s_init
     = (Inl (RuntimeError msg_force_in_core), s_init)"
    by (simp add: working_tensor_def)
  with f dev nic show ?thesis by simp
qed

text \<open>
  Claim C9, as amended. If both \<open>chol_force_in_core\<close> and \<open>chol_force_ooc\<close> are set,
  \<open>gpu_cholesky\<close> fails before any kernel is called, whatever the size, the residency and
  the memory: with the force-in-core \<open>RuntimeError\<close> when a device is chosen, and with the
  exception of the device selection otherwise.
\<close>

theorem both_forced_fails:
  assumes fic: "chol_force_in_core opt" and fooc: "chol_force_ooc opt"
  shows "gpu_cholesky cbs inventory A0 upper0 clean overwrite opt s0 =
           (Inl (case choose_device A0 (gpu_info_of opt inventory) of
                   Inl e \<Rightarrow> e
                 | Inr dev \<Rightarrow> RuntimeError msg_force_in_core),
            snd (working_tensor A0 overwrite s0)) \<and>
         (\<forall>e \<in> set (new_events s0 (snd (gpu_cholesky cbs inventory A0 upper0 clean overwrite opt s0))).
            \<not> is_kernel e)"
proof -
  obtain A s where wt: "working_tensor A0 overwrite s0 = (A, s)" by force
  have r: "gpu_cholesky cbs inventory A0 upper0 clean overwrite opt s0 =
           (Inl (case choose_device A0 (gpu_info_of opt inventory) of
                   Inl e \<Rightarrow> e
                 | Inr dev \<Rightarrow> RuntimeError msg_force_in_core), s)"
  proof (cases "choose_device A0 (gpu_info_of opt inventory)")
    case (Inl e)
    from gpu_cholesky_no_device [OF wt Inl] show ?thesis by (simp add: Inl)
  next
    case (Inr dev)
    have nic: "\<not> in_core A0 dev opt" using fooc by (simp add: in_core_def)
    from gpu_cholesky_cases [OF wt Inr] fic nic show ?thesis by (simp add: Let_def Inr)
  qed
  show ?thesis using r working_tensor_no_kernel [OF wt] by (simp add: wt)
qed

theorem both_forced_fails_witness:
  "chol_force_in_core (opt0\<lparr>chol_force_in_core := True, chol_force_ooc := True\<rparr>) \<and>
   chol_force_ooc (opt0\<lparr>chol_force_in_core := True, chol_force_ooc := True\<rparr>) \<and>
   gpu_cholesky planner0 inventory0 host_mat False False True
     (opt0\<lparr>chol_force_in_core := True, chol_force_ooc := True\<rparr>) s_init
     = (Inl (RuntimeError msg_force_in_core), s_init)"
proof -
  have f: "chol_force_in_core (opt0\<lparr>chol_force_in_core := True, chol_force_ooc := True\<rparr>)"
    and g: "chol_force_ooc (opt0\<lparr>chol_force_in_core := True, chol_force_ooc := True\<rparr>)" by simp_all
  have dev: "choose_device host_mat
     (gpu_info_of (opt0\<lparr>chol_force_in_core := True, chol_force_ooc := True\<rparr>) inventory0) = Inr usable0"
    by (simp add: gpu_info_opt0_flags choose_host0)
  from both_forced_fails [OF f g, of planner0 inventory0 host_mat False False True s_init]
  have "gpu_cholesky planner0 inventory0 host_mat False False True
     (opt0\<lparr>chol_force_in_core := True, chol_force_ooc := True\<rparr>) s_init
     = (Inl (RuntimeError msg_force_in_core), s_init)"
    by (simp add: working_tensor_def dev)
  with f g show ?thesis by simp
qed

text \<open>
  The claim as stated, the force-in-core error for every input, fails where no device is
  chosen: a matrix on device 1 with only device 0 in the inventory, and a host matrix
  with no device in the inventory.
\<close>

theorem both_forced_counterexample:
  "chol_force_in_core (opt0\<lparr>chol_force_in_core := True, chol_force_ooc := True\<rparr>) \<and>
   chol_force_ooc (opt0\<lparr>chol_force_in_core := True, chol_force_ooc := True\<rparr>) \<and>
   fst (gpu_cholesky planner0 inventory0 (cuda_mat\<lparr>device := Cuda 1\<rparr>) False False True
          (opt0\<lparr>chol_force_in_core := True, chol_force_ooc := True\<rparr>) s_init)
     = Inl (DeviceNotRecognized (Cuda 1)) \<and>
   fst (gpu_cholesky planner0 [(-1, host0)] host_mat False False True
          (opt0\<lparr>chol_force_in_core := True, chol_force_ooc := True\<rparr>) s_init)
     = Inl EmptySequence \<and>
   DeviceNotRecognized (Cuda 1) \<noteq> RuntimeError msg_force_in_core \<and>
   EmptySequence \<noteq> RuntimeError msg_force_in_core"
  by (simp add: gpu_cholesky_def working_tensor_def gpu_info_of_def inventory0_def
      choose_device_def cuda_mat_def host_mat_def opt0_def gpu0_def host0_def
      set_actual_free_mem_def)

text \<open>
  Claim C4, as amended. If a device is chosen, the flag \<open>ic\<close> is false and the triangle
  after layout normalization is upper or the matrix is device-resident, \<open>gpu_cholesky\<close>
  fails before any kernel is called. The checks run in this order: the force-in-core
  error, then the lower-triangle-only error, then the device-resident error. So the
  message carries the note on \<open>chol_force_ooc\<close> when the matrix is device-resident, that
  option is set, \<open>chol_force_in_core\<close> is not set and the normalized triangle is lower.
\<close>

theorem ooc_unsupported:
  assumes dev: "choose_device A0 (gpu_info_of opt inventory) = Inr dev"
      and ooc: "\<not> in_core A0 dev opt"
      and bad: "(if is_f_contig A0 then upper0 else \<not> upper0) \<or> is_cuda A0"
  shows "fst (gpu_cholesky cbs inventory A0 upper0 clean overwrite opt s0) =
           Inl (if chol_force_in_core opt then RuntimeError msg_force_in_core
                else if (if is_f_contig A0 then upper0 else \<not> upper0)
                  then ValueError msg_only_lower
                else if chol_force_ooc opt then ValueError (msg_ooc_cuda @ msg_force_ooc_note)
                else ValueError msg_ooc_cuda) \<and>
         (\<forall>e \<in> set (new_events s0 (snd (gpu_cholesky cbs inventory A0 upper0 clean overwrite opt s0))).
            \<not> is_kernel e)"
proof -
  obtain A s where wt: "working_tensor A0 overwrite s0 = (A, s)" by force
  have r: "gpu_cholesky cbs inventory A0 upper0 clean overwrite opt s0 =
           (Inl (if chol_force_in_core opt then RuntimeError msg_force_in_core
                else if (if is_f_contig A0 then upper0 else \<not> upper0)
                  then ValueError msg_only_lower
                else if chol_force_ooc opt then ValueError (msg_ooc_cuda @ msg_force_ooc_note)
                else ValueError msg_ooc_cuda), s)"
    using gpu_cholesky_cases [OF wt dev] ooc bad by (auto simp: Let_def)
  show ?thesis using working_tensor_no_kernel [OF wt] by (simp add: r)
qed

theorem ooc_unsupported_witness:
  "choose_device cuda_mat (gpu_info_of (opt0\<lparr>chol_force_ooc := True\<rparr>) inventory0) = Inr usable0 \<and>
   \<not> in_core cuda_mat usable0 (opt0\<lparr>chol_force_ooc := True\<rparr>) \<and>
   is_cuda cuda_mat \<and>
   fst (gpu_cholesky planner0 inventory0 cuda_mat False False True
          (opt0\<lparr>chol_force_ooc := True\<rparr>) s_init)
     = Inl (ValueError (msg_ooc_cuda @ msg_force_ooc_note))"
proof -
  have gi: "gpu_info_of (opt0\<lparr>chol_force_ooc := True\<rparr>) inventory0 = [usable0]"
    by (simp add: gpu_info0 set_actual_free_mem_def opt0_def gpu0_def usable0_def)
  have dev: "choose_device cuda_mat (gpu_info_of (opt0\<lparr>chol_force_ooc := True\<rparr>) inventory0) = Inr usable0"
    by (simp add: gi choose_cuda0)
  have ooc: "\<not> in_core cuda_mat usable0 (opt0\<lparr>chol_force_ooc := True\<rparr>)"
    by (simp add: in_core_def)
  have cu: "is_cuda cuda_mat" by (simp add: is_cuda_def cuda_mat_def)
  have fc: "is_f_contig cuda_mat" by (simp add: is_f_contig_def cuda_mat_def)
  have bad: "(if is_f_contig cuda_mat then False else \<not> False) \<or> is_cuda cuda_mat"
    using cu by simp
  from ooc_unsupported [OF dev ooc bad, of planner0 False True s_init]
  have "fst (gpu_cholesky planner0 inventory0 cuda_mat False False True
          (opt0\<lparr>chol_force_ooc := True\<rparr>) s_init)
     = Inl (ValueError (msg_ooc_cuda @ msg_force_ooc_note))"
    by (simp add: fc opt0_def)
  with dev ooc cu show ?thesis by simp
qed

text \<open>
  The claim as stated, the note in every device-resident case with \<open>chol_force_ooc\<close> set,
  fails for a column-major matrix on device 0 with the upper triangle requested: the
  error is the lower-triangle-only one, whose message has no such note.
\<close>

theorem ooc_unsupported_counterexample:
  "is_cuda cuda_mat \<and> chol_force_ooc (opt0\<lparr>chol_force_ooc := True\<rparr>) \<and>
   fst (gpu_cholesky planner0 inventory0 cuda_mat True False True
          (opt0\<lparr>chol_force_ooc := True\<rparr>) s_init) = Inl (ValueError msg_only_lower) \<and>
   \<not> contains msg_only_lower msg_force_ooc_note"
proof -
  have c: "\<not> contains msg_only_lower msg_force_ooc_note"
    by code_simp
  have wt: "working_tensor cuda_mat True s_init = (cuda_mat, s_init)"
    by (simp add: working_tensor_def)
  have gi: "gpu_info_of (opt0\<lparr>chol_force_ooc := True\<rparr>) inventory0 = [usable0]"
    by (simp add: gpu_info0 set_actual_free_mem_def opt0_def gpu0_def usable0_def)
  have dev: "choose_device cuda_mat (gpu_info_of (opt0\<lparr>chol_force_ooc := True\<rparr>) inventory0) = Inr usable0"
    by (simp add: gi choose_cuda0)
  have "fst (gpu_cholesky planner0 inventory0 cuda_mat True False True
          (opt0\<lparr>chol_force_ooc := True\<rparr>) s_init) = Inl (ValueError msg_only_lower)"
    unfolding gpu_cholesky_cases [OF wt dev]
    by (simp add: in_core_def is_f_contig_def cuda_mat_def opt0_def)
  with c show ?thesis by (simp add: is_cuda_def cuda_mat_def opt0_def)
qed

subsection \<open>Layout and the caller's buffer\<close>

text \<open>
  Claim C7. If the matrix is not column-major and the call returns, then the
  factorization was dispatched on the transpose of the working tensor with the triangle
  flag negated; when \<open>clean\<close> is set, the last call is \<open>zero_triang\<close> on that transpose,
  for the complement of the negated flag; and the result is the transpose of the
  transpose, which is the working tensor.
\<close>

theorem layout_normalization:
  assumes nf: "\<not> is_f_contig A0"
      and run: "gpu_cholesky cbs inventory A0 upper0 clean overwrite opt s0 = (Inr R, s')"
  shows "\<exists>dev s2.
           choose_device A0 (gpu_info_of opt inventory) = Inr dev \<and>
           dispatch cbs (in_core A0 dev opt) (tensor_T (fst (working_tensor A0 overwrite s0)))
             (\<not> upper0) dev opt (gpu_info_of opt inventory) (snd (working_tensor A0 overwrite s0))
             = (Inr (tensor_T (fst (working_tensor A0 overwrite s0))), s2) \<and>
           s' = (if clean
                 then emit (ZeroTriang (tensor_T (fst (working_tensor A0 overwrite s0)))
                              (\<not> (\<not> upper0))) s2
                 else s2) \<and>
           R = tensor_T (tensor_T (fst (working_tensor A0 overwrite s0))) \<and>
           R = fst (working_tensor A0 overwrite s0)"
proof -
  obtain A s where wt: "working_tensor A0 overwrite s0 = (A, s)" by force
  from gpu_cholesky_ok [OF wt run] nf obtain dev s2 where
    cd: "choose_device A0 (gpu_info_of opt inventory) = Inr dev" and
    d: "dispatch cbs (in_core A0 dev opt) (tensor_T A) (\<not> upper0) dev opt
          (gpu_info_of opt inventory) s = (Inr (tensor_T A), s2)" and
    f: "finalize (tensor_T A) (\<not> upper0) clean True s2 = (R, s')"
    by auto
  have tt: "tensor_T (tensor_T A) = A" by (simp add: tensor_T_def)
  from f have "s' = (if clean then emit (ZeroTriang (tensor_T A) (\<not> (\<not> upper0))) s2 else s2)"
    and "R = tensor_T (tensor_T A)"
    by (auto simp: finalize_def Let_def)
  with cd d tt show ?thesis by (simp add: wt)
qed

theorem layout_normalization_witness:
  "\<not> is_f_contig rowmajor_mat \<and>
   gpu_cholesky planner0 inventory0 rowmajor_mat False True False opt0 s_init = (Inr copy0, final0) \<and>
   copy0 = tensor_T (tensor_T (fst (working_tensor rowmajor_mat False s_init))) \<and>
   last (trace final0) = ZeroTriang (tensor_T (fst (working_tensor rowmajor_mat False s_init))) (\<not> (\<not> False))"
proof -
  have nf: "\<not> is_f_contig rowmajor_mat"
    by (simp add: is_f_contig_def rowmajor_mat_def)
  from layout_normalization [OF nf run_rowmajor0] obtain dev s2 where
    s: "final0 = (if True
                 then emit (ZeroTriang (tensor_T (fst (working_tensor rowmajor_mat False s_init)))
                              (\<not> (\<not> False))) s2
                 else s2)" and
    R: "copy0 = tensor_T (tensor_T (fst (working_tensor rowmajor_mat False s_init)))"
    by (elim exE conjE) (rule that)
  from arg_cong [OF s, of trace] have "last (trace final0) =
      ZeroTriang (tensor_T (fst (working_tensor rowmajor_mat False s_init))) (\<not> (\<not> False))"
    by (simp only: if_True trace_emit last_snoc)
  with nf run_rowmajor0 R show ?thesis by simp
qed

text \<open>
  Claim C3. With \<open>overwrite\<close> false and the caller's buffer allocated, whatever the
  outcome of the call: its first effect is \<open>copy_same_stride\<close> of the caller's matrix
  into a new buffer, with the same shape and strides, pinned; no call of the run writes
  to the caller's buffer; every later write goes to the copy or to a buffer allocated
  during the call; and the tensor returned is a view of the copy.
\<close>

theorem no_overwrite_frame:
  assumes alloc: "data_ptr A0 < next_ptr s0"
      and run: "gpu_cholesky cbs inventory A0 upper0 clean False opt s0 = (r, s')"
  shows "\<exists>A rest.
           new_events s0 s' = CopySameStride A0 A # rest \<and>
           data_ptr A \<noteq> data_ptr A0 \<and> shape A = shape A0 \<and> stride A = stride A0 \<and> pinned A \<and>
           (\<forall>e \<in> set (new_events s0 s'). data_ptr A0 \<notin> writes e) \<and>
           (\<forall>e \<in> set rest. \<forall>p \<in> writes e. p = data_ptr A \<or> next_ptr s0 < p) \<and>
           (\<forall>R. r = Inr R \<longrightarrow> data_ptr R = data_ptr A)"
proof -
  obtain A s where wt: "working_tensor A0 False s0 = (A, s)" by force
  then have A: "data_ptr A = next_ptr s0" "shape A = shape A0" "stride A = stride A0" "pinned A"
    and s: "next_ptr s = Suc (next_ptr s0)" "trace s = trace s0 @ [CopySameStride A0 A]"
    by (auto simp: working_tensor_def copy_same_stride_def Let_def)
  have core: "\<exists>rest. trace s' = trace s @ rest \<and>
           (\<forall>e \<in> set rest. \<forall>p \<in> writes e. p = data_ptr A \<or> next_ptr s0 < p) \<and>
           (\<forall>R. r = Inr R \<longrightarrow> data_ptr R = data_ptr A)"
  proof (cases r)
    case (Inr R)
    from gpu_cholesky_ok [OF wt run [unfolded Inr]] obtain dev s2 where
      d: "dispatch cbs (in_core A0 dev opt) (if is_f_contig A0 then A else tensor_T A)
             (if is_f_contig A0 then upper0 else \<not> upper0) dev opt (gpu_info_of opt inventory) s
             = (Inr (if is_f_contig A0 then A else tensor_T A), s2)" and
      f: "finalize (if is_f_contig A0 then A else tensor_T A)
             (if is_f_contig A0 then upper0 else \<not> upper0) clean (\<not> is_f_contig A0) s2 = (R, s')"
      by blast
    have p1: "data_ptr (if is_f_contig A0 then A else tensor_T A) = data_ptr A"
      by (simp add: tensor_T_def)
    from dispatch_ok [OF d] p1 obtain ev where
      ev: "trace s2 = trace s @ ev"
          "\<forall>x \<in> set ev. \<forall>p \<in> writes x. p = data_ptr A \<or> next_ptr s \<le> p"
      by auto
    from f have tr: "trace s' = trace s2 @
        (if clean then [ZeroTriang (if is_f_contig A0 then A else tensor_T A)
           (\<not> (if is_f_contig A0 then upper0 else \<not> upper0))] else [])"
      and R: "data_ptr R = data_ptr A"
      by (auto simp: finalize_def Let_def tensor_T_def)
    from ev(2) s(1) have ev2: "\<forall>x \<in> set ev. \<forall>p \<in> writes x. p = data_ptr A \<or> next_ptr s0 < p"
      by (auto simp: Suc_le_eq)
    from ev(1) ev2 tr p1 have
      "trace s' = trace s @ (ev @ (if clean then [ZeroTriang (if is_f_contig A0 then A else tensor_T A)
           (\<not> (if is_f_contig A0 then upper0 else \<not> upper0))] else []))"
      "\<forall>e \<in> set (ev @ (if clean then [ZeroTriang (if is_f_contig A0 then A else tensor_T A)
           (\<not> (if is_f_contig A0 then upper0 else \<not> upper0))] else [])).
          \<forall>p \<in> writes e. p = data_ptr A \<or> next_ptr s0 < p"
      by (auto simp: tensor_T_def)
    with R Inr show ?thesis by blast
  next
    case (Inl e)
    from gpu_cholesky_result [OF wt run] Inl
    have "s' = s \<or> (\<exists>dev.
      dispatch cbs (in_core A0 dev opt) (if is_f_contig A0 then A else tensor_T A)
         (if is_f_contig A0 then upper0 else \<not> upper0) dev opt (gpu_info_of opt inventory) s
         = (Inl e, s'))"
      by (elim disjE exE conjE) (auto split: sum.splits)
    then show ?thesis
    proof (elim disjE exE)
      assume "s' = s"
      with Inl show ?thesis by simp
    next
      fix dev
      assume 2: "dispatch cbs (in_core A0 dev opt) (if is_f_contig A0 then A else tensor_T A)
         (if is_f_contig A0 then upper0 else \<not> upper0) dev opt (gpu_info_of opt inventory) s
         = (Inl e, s')"
      from dispatch_error [OF 2] Inl show ?thesis by auto
    qed
  qed
  then obtain rest where rest: "trace s' = trace s @ rest"
      "\<forall>e \<in> set rest. \<forall>p \<in> writes e. p = data_ptr A \<or> next_ptr s0 < p"
      "\<forall>R. r = Inr R \<longrightarrow> data_ptr R = data_ptr A"
    by blast
  have ne: "new_events s0 s' = CopySameStride A0 A # rest"
    using rest(1) s(2) by (simp add: new_events_def)
  have "\<forall>e \<in> set rest. data_ptr A0 \<notin> writes e"
  proof
    fix e assume e: "e \<in> set rest"
    show "data_ptr A0 \<notin> writes e"
    proof
      assume "data_ptr A0 \<in> writes e"
      with rest(2) e have "data_ptr A0 = data_ptr A \<or> next_ptr s0 < data_ptr A0" by blast
      with A(1) alloc show False by simp
    qed
  qed
  then have "\<forall>e \<in> set (new_events s0 s'). data_ptr A0 \<notin> writes e"
    using ne A(1) alloc by simp
  with ne rest A alloc show ?thesis by auto
qed

theorem no_overwrite_frame_witness:
  "data_ptr rowmajor_mat < next_ptr s_init \<and>
   gpu_cholesky planner0 inventory0 rowmajor_mat False True False opt0 s_init = (Inr copy0, final0) \<and>
   (\<exists>A rest.
           new_events s_init final0 = CopySameStride rowmajor_mat A # rest \<and>
           data_ptr A \<noteq> data_ptr rowmajor_mat \<and> shape A = shape rowmajor_mat \<and>
           stride A = stride rowmajor_mat \<and> pinned A \<and>
           (\<forall>e \<in> set (new_events s_init final0). data_ptr rowmajor_mat \<notin> writes e) \<and>
           (\<forall>e \<in> set rest. \<forall>p \<in> writes e. p = data_ptr A \<or> next_ptr s_init < p) \<and>
           (\<forall>R. (Inr copy0 :: error + tensor) = Inr R \<longrightarrow> data_ptr R = data_ptr A))"
proof -
  have alloc: "data_ptr rowmajor_mat < next_ptr s_init"
    by (simp add: rowmajor_mat_def s_init_def)
  from no_overwrite_frame [OF alloc run_rowmajor0] alloc run_rowmajor0 show ?thesis
    by (intro conjI)
qed

end
